theory Spec2Isabelle
  imports Complex_Main "HOL-Library.AList"
begin

section \<open>Guest Personality and Behavior Expander: data model\<close>

text \<open>
  The plugin keeps its numbers in JavaScript \<open>Number\<close>s, which are IEEE 754 binary64
  values. Values read from the host (hunger, thirst, ticks, identifiers) are integers.
  A \<open>Number\<close> is modelled by the rational it denotes, and \<open>Math.round\<close> by \<open>round\<close>
  (\<open>\<lfloor>x + 1/2\<rfloor>\<close>, ties towards plus infinity, as in JavaScript). Where a discrete
  result hangs on how a sum or a quotient is rounded (the preferred ride intensity and
  the ride memory) every arithmetic operation yields \<open>fl\<close> of its exact result, as
  the program's does. The mood intensities are integers or halves, which binary64
  holds exactly. A \<open>Number\<close> that may be \<open>NaN\<close> is an option, \<open>None\<close> standing for
  \<open>NaN\<close>.
\<close>

subsection \<open>Binary64 rounding\<close>

text \<open>
  \<open>ilog2 n\<close> is the position of the leading bit of \<open>n\<close>, and \<open>binade x\<close> the exponent
  \<open>e\<close> with \<open>2 powi e \<le> |x| < 2 powi (e + 1)\<close>. \<open>fl x\<close> is the binary64 value nearest
  to \<open>x\<close>, ties to the even significand: \<open>x\<close> is rounded to a multiple of the spacing
  \<open>2 powi (e - 52)\<close> of its binade, which is the subnormal spacing \<open>2 powi (- 1074)\<close>
  below \<open>2 powi (- 1022)\<close>. There is no infinity: \<open>fl\<close> is the program's rounding for
  results below \<open>2 powi 1024\<close>.
\<close>

fun ilog2 :: "nat \<Rightarrow> nat" where
  "ilog2 n = (if n < 2 then 0 else Suc (ilog2 (n div 2)))"

declare ilog2.simps [simp del]

definition binade :: "rat \<Rightarrow> int" where
  "binade x =
     (let (p, q) = quotient_of \<bar>x\<bar>;
          e = int (ilog2 (nat p)) - int (ilog2 (nat q))
      in if 2 powi e \<le> \<bar>x\<bar> then e else e - 1)"

definition round_even :: "rat \<Rightarrow> int" where
  "round_even m =
     (let f = \<lfloor>m\<rfloor>; r = m - of_int f
      in if r < 1 / 2 then f else if r > 1 / 2 then f + 1 else if even f then f else f + 1)"

definition fl :: "rat \<Rightarrow> rat" where
  "fl x =
     (if x = 0 then 0
      else (let u = 2 powi (max (binade x) (- 1022) - 52)
            in of_int (round_even (x / u)) * u))"

subsection \<open>Identifiers and property keys\<close>

text \<open>
  The host hands out entity identifiers as numbers. The tables \<open>guests\<close> and \<open>groups\<close>
  are plain objects, so a property is addressed by the decimal string of the number, and
  a \<open>for (k in obj)\<close> loop yields those strings, not the numbers. \<open>IdNum n\<close> is the number
  \<open>n\<close>, \<open>IdStr n\<close> the string of its decimal digits: both address property \<open>n\<close>, and
  they are different under \<open>===\<close> and \<open>indexOf\<close>.
\<close>

datatype jsid = IdNum nat | IdStr nat

fun prop_key :: "jsid \<Rightarrow> nat" where
  "prop_key (IdNum n) = n"
| "prop_key (IdStr n) = n"

subsection \<open>Constants\<close>

datatype trait_name =
  THRILL_SEEKER | SOCIAL | PATIENT | FRUGAL | HUNGRY | ADVENTUROUS
  | NERVOUS | ENERGETIC | ROMANTIC | FOODIE | COLLECTOR | PHOTOGRAPHER

text \<open>The keys of \<open>PERSONALITY_TRAITS\<close>, in the order the object literal lists them.\<close>

definition PERSONALITY_TRAITS :: "trait_name list" where
  "PERSONALITY_TRAITS =
     [THRILL_SEEKER, SOCIAL, PATIENT, FRUGAL, HUNGRY, ADVENTUROUS,
      NERVOUS, ENERGETIC, ROMANTIC, FOODIE, COLLECTOR, PHOTOGRAPHER]"

datatype mood_state =
  ECSTATIC | HAPPY | CONTENT | NEUTRAL | BORED | ANNOYED | SAD | ANGRY
  | SCARED | EXCITED | TIRED | HUNGRY_MOOD | THIRSTY_MOOD | SICK

datatype behavior_type =
  WANDERING | SEEKING_RIDE | SEEKING_FOOD | SEEKING_DRINK | SEEKING_TOILET
  | SEEKING_SHELTER | SOCIALIZING | RESTING | PHOTO_TAKING | SHOPPING
  | LEAVING | FOLLOWING_GROUP | LEADING_GROUP

subsection \<open>Configuration\<close>

record config =
  enabled :: bool
  frameBudgetMs :: rat
  maxGuestsPerTick :: int
  updateInterval :: nat
  moodDecayInterval :: nat
  socialUpdateInterval :: nat
  adaptivePerformance :: bool
  minGuestsPerTick :: int
  maxAdaptiveGuestsPerTick :: int
  targetFrameTime :: rat
  moodInfluenceStrength :: rat
  socialInfluenceRadius :: int
  groupFormationChance :: rat
  weatherReactionsEnabled :: bool
  ridePreferencesEnabled :: bool
  socialBehaviorEnabled :: bool
  happyMoodThreshold :: int
  neutralMoodThreshold :: int
  sadMoodThreshold :: int

definition CONFIG :: config where
  "CONFIG = \<lparr> enabled = True, frameBudgetMs = 5 / 2, maxGuestsPerTick = 5,
     updateInterval = 8, moodDecayInterval = 100, socialUpdateInterval = 30,
     adaptivePerformance = True, minGuestsPerTick = 1, maxAdaptiveGuestsPerTick = 8,
     targetFrameTime = 2,
     moodInfluenceStrength = 1 / 2, socialInfluenceRadius = 5,
     groupFormationChance = 15 / 100, weatherReactionsEnabled = True,
     ridePreferencesEnabled = True, socialBehaviorEnabled = True,
     happyMoodThreshold = 180, neutralMoodThreshold = 120, sadMoodThreshold = 60 \<rparr>"

subsection \<open>The host\<close>

datatype network_mode = NetNone | NetServer | NetClient

datatype weather = Rain | HeavyRain | Thunder | OtherWeather

text \<open>
  A host entity as the engines read and write it. \<open>gid\<close> is \<open>None\<close> for a \<open>null\<close> id;
  \<open>hasUmbrella\<close> is the answer of \<open>guest.hasItem({type: 'umbrella'})\<close>, \<open>None\<close> when the
  call throws.
\<close>

record guest =
  gid :: "jsid option"
  is_guest :: bool
  gx :: int
  gy :: int
  hunger :: int
  thirst :: int
  toilet :: int
  energy :: int
  nausea :: int
  happiness :: int
  happinessTarget :: int
  energyTarget :: int
  isInPark :: bool
  hasUmbrella :: "bool option"

text \<open>
  What the plugin reads from its surroundings during one call. \<open>network\<close> is
  \<open>network.mode\<close> (\<open>None\<close> when reading it throws). \<open>rand k\<close> is the value the
  \<open>k\<close>-th call of \<open>RandomGenerator.getGameRandom(0, 10000)\<close> returns. \<open>gaussian\<close> is
  the Box-Muller expression of \<open>getGaussianRandom\<close>, \<open>Math.round(mean + Math.sqrt(-2
  Math.log(u1)) * Math.cos(2 \<pi> u2) * stdDev)\<close>, taken from the host's floating-point
  library. \<open>climate\<close> is \<open>climate.current.weather\<close> (\<open>None\<close> when reading it
  throws), \<open>allGuests\<close> the answer of \<open>map.getAllEntities('guest')\<close> and \<open>tileGuests\<close>
  that of \<open>map.getAllEntitiesOnTile('guest', {x, y})\<close> (\<open>None\<close> when the call throws;
  a list element is \<open>None\<close> for a \<open>null\<close> entry), \<open>getEntity\<close> that of
  \<open>map.getEntity\<close> (outer \<open>None\<close> when it throws, inner \<open>None\<close> for \<open>null\<close>).
  \<open>now k\<close> is the \<open>k\<close>-th reading of \<open>Date.now()\<close>, in milliseconds.
\<close>

record host =
  network :: "network_mode option"
  ticksElapsed :: nat
  rand :: "nat \<Rightarrow> nat"
  gaussian :: "rat \<Rightarrow> rat \<Rightarrow> rat \<Rightarrow> rat \<Rightarrow> int"
  climate :: "weather option"
  allGuests :: "guest option list option"
  tileGuests :: "int \<Rightarrow> int \<Rightarrow> guest list option"
  getEntity :: "jsid \<Rightarrow> guest option option"
  now :: "nat \<Rightarrow> int"

subsection \<open>Profiles and groups\<close>

record mood =
  mood_current :: mood_state
  intensity :: rat
  lastChange :: nat

record target =
  target_type :: string
  preferredIntensity :: "int option"

record behavior =
  behavior_current :: behavior_type
  behavior_target :: "target option"
  startTick :: nat

record social =
  groupId :: "nat option"
  isLeader :: bool
  friendIds :: "jsid list"
  recentInteractions :: nat

record ride_memory =
  timesRidden :: nat
  totalSatisfaction :: rat

record purchase =
  item :: string
  price :: int
  tick :: nat

record memory =
  ridesRidden :: "nat \<rightharpoonup> ride_memory"
  favoriteRide :: "nat option"
  worstExperience :: "nat option"
  totalSpent :: int
  itemsBought :: "purchase list"
  timeInPark :: int

record modifiers =
  happinessBonus :: "rat option"
  energyDrain :: "rat option"
  hungerRate :: "rat option"
  thirstRate :: "rat option"
  spendingMultiplier :: "rat option"

record stats =
  moodChanges :: nat
  behaviorsChanged :: nat
  socialInteractions :: nat
  decisionsInfluenced :: nat

record profile =
  pid :: jsid
  createdTick :: nat
  traits :: "trait_name \<rightharpoonup> int"
  mood :: mood
  behavior :: behavior
  social :: social
  memory :: memory
  modifiers :: modifiers
  stats :: stats

record group =
  group_id :: nat
  leaderId :: jsid
  members :: "jsid list"
  formation :: string
  targetRide :: "nat option"
  group_createdTick :: nat

text \<open>
  \<open>PersonalityStore\<close> with the position of \<open>RandomGenerator\<close>: \<open>drawn\<close> counts the
  calls of \<open>getGameRandom\<close> made so far. The two tables are association lists over
  property keys; \<open>AList.update\<close> assigns a property and \<open>AList.delete\<close> deletes it.
\<close>

record state =
  guests :: "(nat \<times> profile) list"
  groups :: "(nat \<times> group) list"
  nextGroupId :: nat
  drawn :: nat

text \<open>The truthiness of a stored group reference: \<open>null\<close> and \<open>0\<close> are falsy.\<close>

definition truthy :: "nat option \<Rightarrow> bool" where
  "truthy g = (case g of None \<Rightarrow> False | Some n \<Rightarrow> n \<noteq> 0)"

text \<open>A comparison \<open>traits.k > c\<close>; it is false when the property is missing.\<close>

definition trait_gt :: "profile \<Rightarrow> trait_name \<Rightarrow> int \<Rightarrow> bool" where
  "trait_gt data k c = (case traits data k of None \<Rightarrow> False | Some v \<Rightarrow> v > c)"

section \<open>NetworkHelper\<close>

definition getMode :: "host \<Rightarrow> network_mode" where
  "getMode h = (case network h of None \<Rightarrow> NetNone | Some m \<Rightarrow> m)"

definition isServer :: "host \<Rightarrow> bool" where
  "isServer h = (getMode h = NetNone \<or> getMode h = NetServer)"

definition canModifyGameState :: "host \<Rightarrow> bool" where
  "canModifyGameState h = isServer h"

section \<open>RandomGenerator\<close>

definition getRandomFloat :: "host \<Rightarrow> nat \<Rightarrow> rat \<times> nat" where
  "getRandomFloat h n = (of_nat (rand h n) / 10000, Suc n)"

definition getGaussianRandom :: "host \<Rightarrow> rat \<Rightarrow> rat \<Rightarrow> nat \<Rightarrow> int \<times> nat" where
  "getGaussianRandom h mean stdDev n =
     (let (u1, n1) = getRandomFloat h n;
          (u2, n2) = getRandomFloat h n1;
          u1' = (if u1 = 0 then 1 / 10000 else u1)
      in (gaussian h mean stdDev u1' u2, n2))"

section \<open>PersonalityStore\<close>

definition hasGuestData :: "jsid \<Rightarrow> state \<Rightarrow> bool" where
  "hasGuestData guestId st = (map_of (guests st) (prop_key guestId) \<noteq> None)"

text \<open>The loop of \<open>createNewPersonality\<close> over the keys of \<open>PERSONALITY_TRAITS\<close>.\<close>

fun generateTraits ::
  "host \<Rightarrow> trait_name list \<Rightarrow> (trait_name \<rightharpoonup> int) \<Rightarrow> nat \<Rightarrow> (trait_name \<rightharpoonup> int) \<times> nat" where
  "generateTraits h [] t n = (t, n)"
| "generateTraits h (k # ks) t n =
     (let (v, n') = getGaussianRandom h 128 40 n
      in generateTraits h ks (t(k \<mapsto> max 0 (min 255 v))) n')"

definition calculateModifiers :: "profile \<Rightarrow> profile" where
  "calculateModifiers personality =
     (let t = traits personality;
          num = (\<lambda>k. map_option (\<lambda>v. (of_int v :: rat)) (t k))
      in personality\<lparr> modifiers := (modifiers personality)\<lparr>
           energyDrain := map_option (\<lambda>e. 1 - (e - 128) / 512) (num ENERGETIC),
           hungerRate := map_option (\<lambda>u. 8 / 10 + (u / 255) * (4 / 10)) (num HUNGRY),
           thirstRate := map_option (\<lambda>e. 8 / 10 + (e / 255) * (4 / 10)) (num ENERGETIC),
           spendingMultiplier := map_option (\<lambda>f. 15 / 10 - f / 255) (num FRUGAL) \<rparr> \<rparr>)"

definition createNewPersonality :: "host \<Rightarrow> jsid \<Rightarrow> nat \<Rightarrow> profile \<times> nat" where
  "createNewPersonality h guestId n =
     (let (t, n') = generateTraits h PERSONALITY_TRAITS Map.empty n;
          personality = \<lparr> pid = guestId, createdTick = ticksElapsed h, traits = t,
            mood = \<lparr> mood_current = CONTENT, intensity = 128, lastChange = ticksElapsed h \<rparr>,
            behavior = \<lparr> behavior_current = WANDERING, behavior_target = None,
                         startTick = ticksElapsed h \<rparr>,
            social = \<lparr> groupId = None, isLeader = False, friendIds = [],
                       recentInteractions = 0 \<rparr>,
            memory = \<lparr> ridesRidden = Map.empty, favoriteRide = None, worstExperience = None,
                       totalSpent = 0, itemsBought = [], timeInPark = 0 \<rparr>,
            modifiers = \<lparr> happinessBonus = Some 0, energyDrain = Some 1, hungerRate = Some 1,
                          thirstRate = Some 1, spendingMultiplier = Some 1 \<rparr>,
            stats = \<lparr> moodChanges = 0, behaviorsChanged = 0, socialInteractions = 0,
                      decisionsInfluenced = 0 \<rparr> \<rparr>
      in (calculateModifiers personality, n'))"

text \<open>
  \<open>getGuestData\<close> returns the profile and the store, in which a missing profile has
  been created.
\<close>

definition getGuestData :: "host \<Rightarrow> jsid \<Rightarrow> state \<Rightarrow> profile \<times> state" where
  "getGuestData h guestId st =
     (case map_of (guests st) (prop_key guestId) of
        Some data \<Rightarrow> (data, st)
      | None \<Rightarrow>
          (let (data, n') = createNewPersonality h guestId (drawn st)
           in (data, st\<lparr> guests := AList.update (prop_key guestId) data (guests st),
                          drawn := n' \<rparr>)))"

section \<open>BehaviorSystem: the preferred ride intensity\<close>

text \<open>
  The sum is built in binary64, one operation after the other. A missing trait makes
  it \<open>NaN\<close>, which \<open>Math.round\<close>, \<open>Math.min\<close> and \<open>Math.max\<close> hand on.
\<close>

definition calculatePreferredIntensity :: "profile \<Rightarrow> int option" where
  "calculatePreferredIntensity data =
     (case (traits data THRILL_SEEKER, traits data NERVOUS, traits data ADVENTUROUS) of
        (Some ts, Some nv, Some ad) \<Rightarrow>
          (let baseIntensity = (5 :: rat);
               baseIntensity = fl (baseIntensity + fl (of_int (ts - 128) / 40));
               baseIntensity = fl (baseIntensity - fl (of_int (nv - 128) / 50));
               baseIntensity = fl (baseIntensity + fl (of_int (ad - 128) / 80));
               baseIntensity = (if trait_gt data ROMANTIC 170 then fl (baseIntensity - 2)
                                else baseIntensity)
           in Some (max 1 (min 15 (round baseIntensity))))
      | _ \<Rightarrow> None)"

text \<open>
  The sum of \<open>calculatePreferredIntensity\<close> as the program builds it, and the formula of
  the specification in exact arithmetic, for thrill-seeking \<open>ts\<close>, nervous \<open>nv\<close>,
  adventurous \<open>ad\<close> and the test \<open>romantic > 170\<close>.
\<close>

definition intensity_double :: "int \<Rightarrow> int \<Rightarrow> int \<Rightarrow> bool \<Rightarrow> rat" where
  "intensity_double ts nv ad romantic =
     (let b = fl (5 + fl (of_int (ts - 128) / 40));
          b = fl (b - fl (of_int (nv - 128) / 50));
          b = fl (b + fl (of_int (ad - 128) / 80))
      in if romantic then fl (b - 2) else b)"

definition intensity_exact :: "int \<Rightarrow> int \<Rightarrow> int \<Rightarrow> bool \<Rightarrow> rat" where
  "intensity_exact ts nv ad romantic =
     5 + (of_int ts - 128) / 40 - (of_int nv - 128) / 50 + (of_int ad - 128) / 80
       - (if romantic then 2 else 0)"

definition handleSeekingRide :: "config \<Rightarrow> profile \<Rightarrow> profile" where
  "handleSeekingRide cfg data =
     (if \<not> ridePreferencesEnabled cfg then data
      else data\<lparr> behavior := (behavior data)\<lparr> behavior_target :=
             Some \<lparr> target_type = ''ride'',
                    preferredIntensity = calculatePreferredIntensity data \<rparr> \<rparr> \<rparr>)"

section \<open>PersonalityStore: groups and removal\<close>

definition clear :: "state \<Rightarrow> state" where
  "clear st = st\<lparr> guests := [], groups := [], nextGroupId := 1 \<rparr>"

text \<open>
  \<open>members.indexOf(guestId)\<close> followed by \<open>splice(idx, 1)\<close> removes the first element
  that is \<open>===\<close> to \<open>guestId\<close>: \<open>remove1\<close>. \<open>removeGuestData\<close> takes the member out
  of its group and deletes the group only when no member is left; it does not look at
  \<open>leaderId\<close>.
\<close>

definition removeGuestData :: "jsid \<Rightarrow> state \<Rightarrow> state" where
  "removeGuestData guestId st =
     (case map_of (guests st) (prop_key guestId) of
        None \<Rightarrow> st
      | Some data \<Rightarrow>
          (let st1 =
             (case groupId (social data) of
                None \<Rightarrow> st
              | Some g \<Rightarrow>
                  if g = 0 then st
                  else
                    (case map_of (groups st) g of
                       None \<Rightarrow> st
                     | Some grp \<Rightarrow>
                         (let ms = remove1 guestId (members grp)
                          in if ms = [] then st\<lparr> groups := AList.delete g (groups st) \<rparr>
                             else st\<lparr> groups :=
                                    AList.update g (grp\<lparr> members := ms \<rparr>) (groups st) \<rparr>)))
           in st1\<lparr> guests := AList.delete (prop_key guestId) (guests st1) \<rparr>))"

definition createGroup :: "host \<Rightarrow> jsid \<Rightarrow> state \<Rightarrow> nat \<times> state" where
  "createGroup h leaderGuestId st =
     (let g = nextGroupId st;
          st1 = st\<lparr> nextGroupId := g + 1 \<rparr>;
          st2 = st1\<lparr> groups := AList.update g
                  \<lparr> group_id = g, leaderId = leaderGuestId, members = [leaderGuestId],
                    formation = ''follow'', targetRide = None,
                    group_createdTick = ticksElapsed h \<rparr> (groups st1) \<rparr>;
          st3 = st2\<lparr> guests := AList.map_entry (prop_key leaderGuestId)
                  (\<lambda>p. p\<lparr> social := (social p)\<lparr> groupId := Some g, isLeader := True \<rparr> \<rparr>)
                  (guests st2) \<rparr>
      in (g, st3))"

definition removeFromGroup :: "jsid \<Rightarrow> state \<Rightarrow> state" where
  "removeFromGroup guestId st =
     (case map_of (guests st) (prop_key guestId) of
        None \<Rightarrow> st
      | Some data \<Rightarrow>
          (case groupId (social data) of
             None \<Rightarrow> st
           | Some g \<Rightarrow>
               if g = 0 then st
               else
                 (case map_of (groups st) g of
                    None \<Rightarrow> st
                  | Some grp \<Rightarrow>
                      (let ms = remove1 guestId (members grp);
                           st1 = st\<lparr> groups :=
                                   AList.update g (grp\<lparr> members := ms \<rparr>) (groups st) \<rparr>;
                           st2 =
                             (if leaderId grp = guestId then
                                (case ms of
                                   newLeaderId # _ \<Rightarrow>
                                     st1\<lparr> groups := AList.map_entry g
                                            (\<lambda>x. x\<lparr> leaderId := newLeaderId \<rparr>) (groups st1),
                                          guests := AList.map_entry (prop_key newLeaderId)
                                            (\<lambda>p. p\<lparr> social := (social p)\<lparr> isLeader := True \<rparr> \<rparr>)
                                            (guests st1) \<rparr>
                                 | [] \<Rightarrow> st1\<lparr> groups := AList.delete g (groups st1) \<rparr>)
                              else st1)
                       in st2\<lparr> guests := AList.map_entry (prop_key guestId)
                              (\<lambda>p. p\<lparr> social := (social p)\<lparr> groupId := None,
                                                              isLeader := False \<rparr> \<rparr>)
                              (guests st2) \<rparr>))))"

text \<open>
  The group \<open>removeFromGroup\<close> works on, by its two guards: the agent has a profile,
  the group reference of that profile is truthy, and the store holds a group under it.
\<close>

definition resolvedGroup :: "state \<Rightarrow> jsid \<Rightarrow> (nat \<times> group) option" where
  "resolvedGroup st guestId =
     (case map_of (guests st) (prop_key guestId) of
        None \<Rightarrow> None
      | Some data \<Rightarrow>
          (case groupId (social data) of
             None \<Rightarrow> None
           | Some g \<Rightarrow>
               if g = 0 then None
               else (case map_of (groups st) g of None \<Rightarrow> None | Some grp \<Rightarrow> Some (g, grp))))"

datatype error = TypeError

text \<open>
  \<open>addToGroup\<close> answers \<open>false\<close> for a missing group or profile. When the guest was the
  leader and only member of the very group it joins, \<open>removeFromGroup\<close> has deleted that
  group and \<open>this.groups[groupId].members\<close> throws.
\<close>

definition addToGroup :: "jsid \<Rightarrow> nat \<Rightarrow> state \<Rightarrow> (error + bool) \<times> state" where
  "addToGroup guestId g st =
     (case map_of (groups st) g of
        None \<Rightarrow> (Inr False, st)
      | Some _ \<Rightarrow>
          (case map_of (guests st) (prop_key guestId) of
             None \<Rightarrow> (Inr False, st)
           | Some data \<Rightarrow>
               (let st1 = (if truthy (groupId (social data)) then removeFromGroup guestId st
                           else st)
                in case map_of (groups st1) g of
                     None \<Rightarrow> (Inl TypeError, st1)
                   | Some grp \<Rightarrow>
                       (Inr True,
                        st1\<lparr> groups := AList.update g
                               (grp\<lparr> members := members grp @ [guestId] \<rparr>) (groups st1),
                             guests := AList.map_entry (prop_key guestId)
                               (\<lambda>p. p\<lparr> social := (social p)\<lparr> groupId := Some g,
                                                               isLeader := False \<rparr> \<rparr>)
                               (guests st1) \<rparr>))))"

definition getGroupMembers :: "nat \<Rightarrow> state \<Rightarrow> jsid list" where
  "getGroupMembers g st = (case map_of (groups st) g of None \<Rightarrow> [] | Some grp \<Rightarrow> members grp)"

text \<open>
  \<open>cleanupOldData\<close>. The first loop collects the property keys of the live guests and
  sits in a \<open>try\<close> whose handler returns. The second loop is a \<open>for (guestId in
  this.guests)\<close>: it visits the keys in ascending order and hands each to
  \<open>removeGuestData\<close> as the string it is.
\<close>

definition validGuestIds :: "guest option list \<Rightarrow> nat list" where
  "validGuestIds gs =
     concat (map (\<lambda>e. case e of None \<Rightarrow> []
                        | Some g \<Rightarrow> (case gid g of None \<Rightarrow> [] | Some i \<Rightarrow> [prop_key i])) gs)"

definition cleanupOldData :: "host \<Rightarrow> state \<Rightarrow> state" where
  "cleanupOldData h st =
     (case allGuests h of
        None \<Rightarrow> st
      | Some gs \<Rightarrow>
          fold (\<lambda>k s. if k \<in> set (validGuestIds gs) then s else removeGuestData (IdStr k) s)
               (sort (map fst (guests st))) st)"

section \<open>MoodSystem\<close>

text \<open>
  \<open>countNearbyGuests\<close> asks the host for the guests on the agent's tile and on its four
  neighbours; a throwing query makes the answer \<open>0\<close>.
\<close>

definition countNearbyGuests :: "host \<Rightarrow> guest \<Rightarrow> int" where
  "countNearbyGuests h g =
     (let tileX = gx g div 32; tileY = gy g div 32
      in case tileGuests h (tileX * 32) (tileY * 32) of
           None \<Rightarrow> 0
         | Some c0 \<Rightarrow>
             (case those (map (\<lambda>(dx, dy). tileGuests h ((tileX + dx) * 32) ((tileY + dy) * 32))
                            [(1, 0), (-1, 0), (0, 1), (0, -1)]) of
                None \<Rightarrow> 0
              | Some cs \<Rightarrow> max 0 (int (length c0) + int (sum_list (map length cs)) - 1)))"

definition calculateMood :: "config \<Rightarrow> host \<Rightarrow> guest \<Rightarrow> profile \<Rightarrow> mood" where
  "calculateMood cfg h g data =
     (let lc = lastChange (mood data);
          baseHappiness = (if happiness g = 0 then 128 else happiness g);
          happinessModifier = 0;
          happinessModifier =
            (if trait_gt data SOCIAL 150
             then happinessModifier + min 20 (countNearbyGuests h g * 2) else happinessModifier);
          happinessModifier =
            (if trait_gt data NERVOUS 150
             then happinessModifier - min 20 (countNearbyGuests h g * 3) else happinessModifier)
      in if hunger g < 50 then
           \<lparr> mood_current = HUNGRY_MOOD, intensity = of_int (50 + (50 - hunger g)),
             lastChange = lc \<rparr>
         else if thirst g < 50 then
           \<lparr> mood_current = THIRSTY_MOOD, intensity = of_int (50 + (50 - thirst g)),
             lastChange = lc \<rparr>
         else if toilet g > 200 then
           \<lparr> mood_current = ANNOYED, intensity = 100 + of_int (toilet g - 200) / 2,
             lastChange = lc \<rparr>
         else if energy g < 40 then
           \<lparr> mood_current = TIRED, intensity = of_int (40 + (40 - energy g)), lastChange = lc \<rparr>
         else if nausea g > 150 then
           \<lparr> mood_current = SICK, intensity = of_int (nausea g), lastChange = lc \<rparr>
         else
           (let adjustedHappiness = max 0 (min 255 (baseHappiness + happinessModifier))
            in if adjustedHappiness > happyMoodThreshold cfg + 50 then
                 \<lparr> mood_current = ECSTATIC, intensity = of_int adjustedHappiness,
                   lastChange = lc \<rparr>
               else if adjustedHappiness > happyMoodThreshold cfg then
                 \<lparr> mood_current = HAPPY, intensity = of_int adjustedHappiness, lastChange = lc \<rparr>
               else if adjustedHappiness > neutralMoodThreshold cfg then
                 \<lparr> mood_current = CONTENT, intensity = of_int adjustedHappiness,
                   lastChange = lc \<rparr>
               else if adjustedHappiness > sadMoodThreshold cfg then
                 \<lparr> mood_current = NEUTRAL, intensity = of_int adjustedHappiness,
                   lastChange = lc \<rparr>
               else if adjustedHappiness > 30 then
                 \<lparr> mood_current = SAD, intensity = of_int (128 - adjustedHappiness),
                   lastChange = lc \<rparr>
               else
                 \<lparr> mood_current = ANGRY, intensity = of_int (200 - adjustedHappiness),
                   lastChange = lc \<rparr>))"

fun happinessAdjustOf :: "mood_state \<Rightarrow> rat" where
  "happinessAdjustOf ECSTATIC = 30"
| "happinessAdjustOf HAPPY = 15"
| "happinessAdjustOf EXCITED = 20"
| "happinessAdjustOf BORED = - 10"
| "happinessAdjustOf ANNOYED = - 15"
| "happinessAdjustOf SAD = - 20"
| "happinessAdjustOf ANGRY = - 30"
| "happinessAdjustOf _ = 0"

definition applyMoodEffects :: "config \<Rightarrow> host \<Rightarrow> guest \<Rightarrow> profile \<Rightarrow> guest" where
  "applyMoodEffects cfg h g data =
     (if \<not> canModifyGameState h then g
      else
        (let happinessAdjust = happinessAdjustOf (mood_current (mood data));
             happinessAdjust = round (happinessAdjust * moodInfluenceStrength cfg);
             newTarget = max 0 (min 255 (happinessTarget g + happinessAdjust))
         in if \<bar>newTarget - happinessTarget g\<bar> > 5 then g\<lparr> happinessTarget := newTarget \<rparr>
            else g))"

text \<open>
  \<open>updateMood\<close> returns the host entity and the store as it leaves them. \<open>data\<close> is the
  stored profile object, so its assignments are assignments to the table entry.
\<close>

definition updateMood :: "config \<Rightarrow> host \<Rightarrow> jsid \<Rightarrow> guest \<Rightarrow> state \<Rightarrow> guest \<times> state" where
  "updateMood cfg h guestId g st =
     (if \<not> canModifyGameState h then (g, st)
      else
        (let (data, st1) = getGuestData h guestId st;
             newMood = calculateMood cfg h g data
         in if mood_current newMood \<noteq> mood_current (mood data)
               \<or> \<bar>intensity newMood - intensity (mood data)\<bar> > 10
            then
              (let data' = data\<lparr> mood := newMood\<lparr> lastChange := ticksElapsed h \<rparr>,
                                 stats := (stats data)\<lparr> moodChanges := moodChanges (stats data) + 1 \<rparr> \<rparr>
               in (applyMoodEffects cfg h g data',
                   st1\<lparr> guests := AList.update (prop_key guestId) data' (guests st1) \<rparr>))
            else (g, st1)))"

section \<open>RidePreferenceSystem: the ride memory\<close>

text \<open>
  \<open>satisfaction\<close> is a \<open>Number\<close>; the total, the average and the two thresholds
  \<open>0.8\<close> and \<open>0.3\<close> are the binary64 values the program computes and compares.
\<close>

definition recordRideExperience :: "host \<Rightarrow> jsid \<Rightarrow> nat \<Rightarrow> rat \<Rightarrow> state \<Rightarrow> state" where
  "recordRideExperience h guestId rideId satisfaction st =
     (let (data, st1) = getGuestData h guestId st;
          m = memory data;
          rideMemory = (case ridesRidden m rideId of
                          None \<Rightarrow> \<lparr> timesRidden = 0, totalSatisfaction = 0 \<rparr>
                        | Some r \<Rightarrow> r);
          rideMemory = rideMemory\<lparr> timesRidden := timesRidden rideMemory + 1 \<rparr>;
          rideMemory = rideMemory\<lparr> totalSatisfaction :=
                         fl (totalSatisfaction rideMemory + satisfaction) \<rparr>;
          m = m\<lparr> ridesRidden := (ridesRidden m)(rideId \<mapsto> rideMemory) \<rparr>;
          avgSatisfaction =
            fl (totalSatisfaction rideMemory / of_nat (timesRidden rideMemory));
          m = (if avgSatisfaction > fl (8 / 10) \<and> timesRidden rideMemory \<ge> 2
               then m\<lparr> favoriteRide := Some rideId \<rparr> else m);
          m = (if avgSatisfaction < fl (3 / 10) \<and> timesRidden rideMemory \<ge> 1
               then m\<lparr> worstExperience := Some rideId \<rparr> else m)
      in st1\<lparr> guests := AList.update (prop_key guestId) (data\<lparr> memory := m \<rparr>) (guests st1) \<rparr>)"

section \<open>BehaviorSystem\<close>

text \<open>
  The idiom \<open>cond && RandomGenerator.getRandomFloat() < p\<close>: the draw is taken only when
  \<open>cond\<close> holds.
\<close>

definition chance :: "host \<Rightarrow> bool \<Rightarrow> rat \<Rightarrow> nat \<Rightarrow> bool \<times> nat" where
  "chance h c p n = (if c then (let (r, n') = getRandomFloat h n in (r < p, n')) else (False, n))"

text \<open>
  \<open>getWeatherBehavior\<close> runs inside a \<open>try\<close> whose handler is empty: a throwing read of
  the climate or a throwing \<open>hasItem\<close> ends in \<open>return null\<close>.
\<close>

definition getWeatherBehavior ::
  "host \<Rightarrow> guest \<Rightarrow> profile \<Rightarrow> nat \<Rightarrow> behavior_type option \<times> nat" where
  "getWeatherBehavior h g data n =
     (case climate h of
        None \<Rightarrow> (None, n)
      | Some w \<Rightarrow>
          if w = Rain \<or> w = HeavyRain then
            (case hasUmbrella g of
               None \<Rightarrow> (None, n)
             | Some True \<Rightarrow> (None, n)
             | Some False \<Rightarrow>
                 if trait_gt data NERVOUS 150 then (Some SEEKING_SHELTER, n)
                 else (let (r, n') = getRandomFloat h n
                       in if r < 3 / 10 then (Some SEEKING_SHELTER, n') else (None, n')))
          else if w = Thunder then
            (if trait_gt data NERVOUS 100 then (Some SEEKING_SHELTER, n) else (None, n))
          else (None, n))"

definition determineBehavior ::
  "config \<Rightarrow> host \<Rightarrow> guest \<Rightarrow> profile \<Rightarrow> nat \<Rightarrow> behavior_type \<times> nat" where
  "determineBehavior cfg h g data n =
     (if toilet g > 180 then (SEEKING_TOILET, n)
      else if hunger g < 40 \<and> trait_gt data HUNGRY 100 then (SEEKING_FOOD, n)
      else if thirst g < 40 then (SEEKING_DRINK, n)
      else if hunger g < 60 then (SEEKING_FOOD, n)
      else
        (let (weatherBehavior, n1) =
               (if weatherReactionsEnabled cfg then getWeatherBehavior h g data n else (None, n))
         in case weatherBehavior of
              Some b \<Rightarrow> (b, n1)
            | None \<Rightarrow>
                if energy g < 30 then (RESTING, n1)
                else if truthy (groupId (social data)) \<and> \<not> isLeader (social data)
                  then (FOLLOWING_GROUP, n1)
                else if isLeader (social data) then (LEADING_GROUP, n1)
                else
                  (let (photo, n2) = chance h (trait_gt data PHOTOGRAPHER 180) (1 / 10) n1
                   in if photo then (PHOTO_TAKING, n2)
                      else
                        (let (shop, n3) = chance h (trait_gt data COLLECTOR 180) (5 / 100) n2
                         in if shop then (SHOPPING, n3)
                            else
                              (let (soc, n4) = chance h (trait_gt data SOCIAL 170)
                                                 (groupFormationChance cfg) n3
                               in if soc then (SOCIALIZING, n4)
                                  else if mood_current (mood data) = BORED
                                    then (SEEKING_RIDE, n4)
                                  else
                                    (let (leave, n5) =
                                           chance h (mood_current (mood data) = SAD \<and> isInPark g)
                                             (1 / 10) n4
                                     in if leave then (LEAVING, n5)
                                        else if trait_gt data THRILL_SEEKER 150
                                                \<or> trait_gt data ADVENTUROUS 150
                                          then (SEEKING_RIDE, n5)
                                        else (WANDERING, n5)))))))"

text \<open>
  \<open>findNearbyGuestsForSocializing\<close>: the tiles around the agent in the order of the two
  nested loops, the centre left out. Looking a neighbour up creates its profile when it
  has none. A throwing tile query ends the scan with the neighbours found so far.
\<close>

definition scanOffsets :: "int \<Rightarrow> (int \<times> int) list" where
  "scanOffsets r =
     concat (map (\<lambda>dx. concat (map (\<lambda>dy. if dx = 0 \<and> dy = 0 then [] else [(dx, dy)])
                                    [- r ..r])) [- r ..r])"

fun scanTile :: "host \<Rightarrow> guest \<Rightarrow> guest list \<Rightarrow> jsid list \<times> state \<Rightarrow> jsid list \<times> state" where
  "scanTile h g [] acc = acc"
| "scanTile h g (otherGuest # rest) (nearby, st) =
     (case gid otherGuest of
        None \<Rightarrow> scanTile h g rest (nearby, st)
      | Some oid \<Rightarrow>
          if gid g = Some oid then scanTile h g rest (nearby, st)
          else
            (let (otherData, st') = getGuestData h oid st
             in scanTile h g rest
                  (if trait_gt otherData SOCIAL 100 then nearby @ [oid] else nearby, st')))"

fun scanTiles ::
  "host \<Rightarrow> guest \<Rightarrow> (int \<times> int) list \<Rightarrow> jsid list \<times> state \<Rightarrow> jsid list \<times> state" where
  "scanTiles h g [] acc = acc"
| "scanTiles h g ((dx, dy) # rest) acc =
     (case tileGuests h ((gx g div 32 + dx) * 32) ((gy g div 32 + dy) * 32) of
        None \<Rightarrow> acc
      | Some guestsOnTile \<Rightarrow> scanTiles h g rest (scanTile h g guestsOnTile acc))"

definition findNearbyGuestsForSocializing ::
  "config \<Rightarrow> host \<Rightarrow> guest \<Rightarrow> state \<Rightarrow> jsid list \<times> state" where
  "findNearbyGuestsForSocializing cfg h g st =
     scanTiles h g (scanOffsets (socialInfluenceRadius cfg)) ([], st)"

text \<open>The loop of \<open>handleSocializing\<close> that looks for a neighbour with a group.\<close>

fun findExistingGroup :: "host \<Rightarrow> jsid list \<Rightarrow> state \<Rightarrow> nat option \<times> state" where
  "findExistingGroup h [] st = (None, st)"
| "findExistingGroup h (i # rest) st =
     (let (nearbyData, st') = getGuestData h i st
      in if truthy (groupId (social nearbyData)) then (groupId (social nearbyData), st')
         else findExistingGroup h rest st')"

definition bumpSocialInteractions :: "jsid \<Rightarrow> state \<Rightarrow> state" where
  "bumpSocialInteractions guestId st =
     st\<lparr> guests := AList.map_entry (prop_key guestId)
            (\<lambda>p. p\<lparr> stats := (stats p)\<lparr> socialInteractions := socialInteractions (stats p) + 1 \<rparr> \<rparr>)
            (guests st) \<rparr>"

text \<open>
  \<open>handleSocializing\<close> and \<open>executeBehavior\<close> work on \<open>data\<close>, the profile object stored
  under \<open>guestId\<close> (the scheduler passes \<open>guest.id\<close>), so the model addresses it by that
  key. \<open>executeBehavior\<close> wraps its \<open>switch\<close> in a \<open>try\<close> that only logs: where
  \<open>handleSocializing\<close> throws (a group reference without a group, or \<open>addToGroup\<close>
  throwing), the store stays as the throw left it.
\<close>

definition handleSocializing :: "config \<Rightarrow> host \<Rightarrow> jsid \<Rightarrow> guest \<Rightarrow> state \<Rightarrow> state" where
  "handleSocializing cfg h guestId g st =
     (if \<not> socialBehaviorEnabled cfg then st
      else
        (case map_of (guests st) (prop_key guestId) of
           None \<Rightarrow> st
         | Some data \<Rightarrow>
             if truthy (groupId (social data)) then st
             else
               (let (nearbyGuests, st1) = findNearbyGuestsForSocializing cfg h g st
                in case nearbyGuests of
                     [] \<Rightarrow> st1
                   | first # _ \<Rightarrow>
                       (let (existingGroup, st2) = findExistingGroup h nearbyGuests st1
                        in case existingGroup of
                             Some eg \<Rightarrow>
                               (case map_of (groups st2) eg of
                                  None \<Rightarrow> st2
                                | Some grp \<Rightarrow>
                                    if length (members grp) < 6 then
                                      (let (r, st3) = addToGroup guestId eg st2
                                       in case r of
                                            Inl _ \<Rightarrow> st3
                                          | Inr _ \<Rightarrow> bumpSocialInteractions guestId st3)
                                    else st2)
                           | None \<Rightarrow>
                               (let (newGroup, st3) = createGroup h guestId st2;
                                    (r, st4) = addToGroup first newGroup st3
                                in case r of
                                     Inl _ \<Rightarrow> st4
                                   | Inr _ \<Rightarrow> bumpSocialInteractions guestId st4)))))"

definition executeBehavior ::
  "config \<Rightarrow> host \<Rightarrow> jsid \<Rightarrow> guest \<Rightarrow> state \<Rightarrow> guest \<times> state" where
  "executeBehavior cfg h guestId g st =
     (if \<not> canModifyGameState h then (g, st)
      else
        (case map_of (guests st) (prop_key guestId) of
           None \<Rightarrow> (g, st)
         | Some data \<Rightarrow>
             (case behavior_current (behavior data) of
                SEEKING_RIDE \<Rightarrow>
                  (g, st\<lparr> guests := AList.update (prop_key guestId)
                                      (handleSeekingRide cfg data) (guests st) \<rparr>)
              | SOCIALIZING \<Rightarrow> (g, handleSocializing cfg h guestId g st)
              | RESTING \<Rightarrow>
                  (if energy g < 30 then g\<lparr> energyTarget := min 255 (energy g + 20) \<rparr> else g, st)
              | PHOTO_TAKING \<Rightarrow> (g\<lparr> happinessTarget := min 255 (happinessTarget g + 10) \<rparr>, st)
              | _ \<Rightarrow> (g, st))))"

definition updateBehavior ::
  "config \<Rightarrow> host \<Rightarrow> jsid \<Rightarrow> guest \<Rightarrow> state \<Rightarrow> guest \<times> state" where
  "updateBehavior cfg h guestId g st =
     (if \<not> canModifyGameState h then (g, st)
      else
        (let (data, st1) = getGuestData h guestId st;
             (newBehavior, n') = determineBehavior cfg h g data (drawn st1);
             st2 = st1\<lparr> drawn := n' \<rparr>
         in if newBehavior \<noteq> behavior_current (behavior data) then
              (let data' = data\<lparr> behavior := (behavior data)\<lparr> behavior_current := newBehavior,
                                                                startTick := ticksElapsed h \<rparr>,
                                 stats := (stats data)\<lparr> behaviorsChanged :=
                                            behaviorsChanged (stats data) + 1 \<rparr> \<rparr>
               in executeBehavior cfg h guestId g
                    (st2\<lparr> guests := AList.update (prop_key guestId) data' (guests st2) \<rparr>))
            else (g, st2)))"

section \<open>SocialSystem\<close>

definition dissolveGroup :: "nat \<Rightarrow> state \<Rightarrow> state" where
  "dissolveGroup g st =
     (case map_of (groups st) g of
        None \<Rightarrow> st
      | Some grp \<Rightarrow>
          (let st1 = fold removeFromGroup (members grp) st
           in st1\<lparr> groups := AList.delete g (groups st1) \<rparr>))"

text \<open>
  The loop of \<open>updateGroup\<close> over the members: a member the host no longer resolves, or
  whose lookup throws, is marked; a member further than 15 tiles from the leader is
  marked with probability 0.1.
\<close>

fun membersToRemove ::
  "host \<Rightarrow> jsid \<Rightarrow> int \<Rightarrow> int \<Rightarrow> jsid list \<Rightarrow> nat \<Rightarrow> jsid list \<times> nat" where
  "membersToRemove h leader leaderX leaderY [] n = ([], n)"
| "membersToRemove h leader leaderX leaderY (memberId # rest) n =
     (if memberId = leader then membersToRemove h leader leaderX leaderY rest n
      else
        (case getEntity h memberId of
           None \<Rightarrow>
             (let (ms, n') = membersToRemove h leader leaderX leaderY rest n
              in (memberId # ms, n'))
         | Some None \<Rightarrow>
             (let (ms, n') = membersToRemove h leader leaderX leaderY rest n
              in (memberId # ms, n'))
         | Some (Some member) \<Rightarrow>
             (let distance = \<bar>gx member div 32 - leaderX\<bar> + \<bar>gy member div 32 - leaderY\<bar>;
                  (out, n1) = chance h (distance > 15) (1 / 10) n;
                  (ms, n') = membersToRemove h leader leaderX leaderY rest n1
              in (if out then memberId # ms else ms, n'))))"

definition updateGroup :: "host \<Rightarrow> nat \<Rightarrow> state \<Rightarrow> state" where
  "updateGroup h g st =
     (case map_of (groups st) g of
        None \<Rightarrow> st
      | Some grp \<Rightarrow>
          if length (members grp) < 2 then dissolveGroup g st
          else
            (case getEntity h (leaderId grp) of
               None \<Rightarrow> dissolveGroup g st
             | Some None \<Rightarrow> dissolveGroup g st
             | Some (Some leader) \<Rightarrow>
                 (let (ms, n') = membersToRemove h (leaderId grp) (gx leader div 32)
                                   (gy leader div 32) (members grp) (drawn st)
                  in fold removeFromGroup ms (st\<lparr> drawn := n' \<rparr>))))"

definition updateGroups :: "host \<Rightarrow> state \<Rightarrow> state" where
  "updateGroups h st =
     (if \<not> canModifyGameState h then st
      else fold (updateGroup h) (sort (map fst (groups st))) st)"

section \<open>GuestGenerationHandler\<close>

text \<open>
  \<open>onGuestGenerated\<close> answers the host entity as the handler leaves it, \<open>None\<close> when it
  touched none, and the store.
\<close>

definition onGuestGenerated :: "host \<Rightarrow> jsid \<Rightarrow> state \<Rightarrow> guest option \<times> state" where
  "onGuestGenerated h guestId st =
     (if \<not> canModifyGameState h then (None, st)
      else
        (let (data, st1) = getGuestData h guestId st
         in case getEntity h guestId of
              None \<Rightarrow> (None, st1)
            | Some None \<Rightarrow> (None, st1)
            | Some (Some g) \<Rightarrow>
                if is_guest g then
                  (let g1 = (if trait_gt data ENERGETIC 170
                             then g\<lparr> energy := min 255 (energy g + 20),
                                    energyTarget := min 255 (energyTarget g + 20) \<rparr>
                             else g);
                       g2 = (if trait_gt data PATIENT 170
                             then g1\<lparr> happinessTarget := min 255 (happinessTarget g1 + 10) \<rparr>
                             else g1)
                   in (Some g2, st1))
                else (None, st1)))"

section \<open>PerformanceMonitor and PersonalityProcessor\<close>

record statistics =
  guestsProcessed :: nat
  personalitiesCreated :: nat
  lastFrameTime :: rat
  avgFrameTime :: rat
  ticksProcessed :: nat

text \<open>
  The scheduler's own state, the store it drives and the frame timer. \<open>clock\<close> counts
  the readings of \<open>Date.now()\<close> taken so far.
\<close>

record plugin =
  store :: state
  guestIndex :: nat
  tickCounter :: nat
  moodTickCounter :: nat
  socialTickCounter :: nat
  cleanupTickCounter :: nat
  statistics :: statistics
  frameStartTime :: int
  frameTimes :: "int list"
  clock :: nat

definition startFrame :: "host \<Rightarrow> plugin \<Rightarrow> plugin" where
  "startFrame h pl = pl\<lparr> frameStartTime := now h (clock pl), clock := Suc (clock pl) \<rparr>"

definition getElapsedMs :: "host \<Rightarrow> plugin \<Rightarrow> int \<times> plugin" where
  "getElapsedMs h pl = (now h (clock pl) - frameStartTime pl, pl\<lparr> clock := Suc (clock pl) \<rparr>)"

definition isOverBudget :: "config \<Rightarrow> host \<Rightarrow> plugin \<Rightarrow> bool \<times> plugin" where
  "isOverBudget cfg h pl =
     (let (elapsed, pl') = getElapsedMs h pl in (of_int elapsed \<ge> frameBudgetMs cfg, pl'))"

definition endFrame :: "host \<Rightarrow> plugin \<Rightarrow> int \<times> plugin" where
  "endFrame h pl =
     (let (elapsed, pl1) = getElapsedMs h pl;
          ts = frameTimes pl1 @ [elapsed];
          ts = (if length ts > 60 then tl ts else ts)
      in (elapsed, pl1\<lparr> frameTimes := ts \<rparr>))"

definition getAverageFrameTime :: "plugin \<Rightarrow> rat" where
  "getAverageFrameTime pl =
     (if frameTimes pl = [] then 0
      else of_int (sum_list (frameTimes pl)) / of_nat (length (frameTimes pl)))"

definition adjustProcessingRate :: "config \<Rightarrow> plugin \<Rightarrow> config" where
  "adjustProcessingRate cfg pl =
     (if \<not> adaptivePerformance cfg then cfg
      else
        (let avg = getAverageFrameTime pl
         in if avg > targetFrameTime cfg * (15 / 10) then
              cfg\<lparr> maxGuestsPerTick := max (minGuestsPerTick cfg) (maxGuestsPerTick cfg - 1) \<rparr>
            else if avg < targetFrameTime cfg * (5 / 10) then
              cfg\<lparr> maxGuestsPerTick :=
                     min (maxAdaptiveGuestsPerTick cfg) (maxGuestsPerTick cfg + 1) \<rparr>
            else cfg))"

definition processGuest :: "config \<Rightarrow> host \<Rightarrow> guest \<Rightarrow> plugin \<Rightarrow> guest \<times> plugin" where
  "processGuest cfg h g pl =
     (case gid g of
        None \<Rightarrow> (g, pl)
      | Some guestId \<Rightarrow>
          (let pl1 =
                 (if \<not> hasGuestData guestId (store pl) then
                    pl\<lparr> store := snd (getGuestData h guestId (store pl)),
                        statistics := (statistics pl)\<lparr> personalitiesCreated :=
                                        personalitiesCreated (statistics pl) + 1 \<rparr> \<rparr>
                  else pl);
               (g1, st1) = updateMood cfg h guestId g (store pl1);
               (g2, st2) = updateBehavior cfg h guestId g1 st1;
               (data, st3) = getGuestData h guestId st2;
               data' = data\<lparr> memory := (memory data)\<lparr> timeInPark :=
                                int (ticksElapsed h) - int (createdTick data) \<rparr> \<rparr>
           in (g2, pl1\<lparr> store := st3\<lparr> guests :=
                                AList.update (prop_key guestId) data' (guests st3) \<rparr> \<rparr>)))"

text \<open>
  One turn of the \<open>while\<close> loop of \<open>processGuests\<close>, after its condition: the guest
  under the cursor is taken, the cursor moves on and wraps, and a guest that passes the
  test is processed. The answer's flag says whether the body of the \<open>try\<close> ran to its
  end, where it counts the guest in \<open>processed\<close> and in \<open>statistics.guestsProcessed\<close>.
  \<open>processGuests\<close> enters the loop with a non-empty list only; on an empty one the
  index would be \<open>NaN\<close> and the guest \<open>undefined\<close>, which fails the test.
\<close>

definition processOne ::
  "config \<Rightarrow> host \<Rightarrow> guest option list \<Rightarrow> plugin \<Rightarrow> guest option list \<times> plugin \<times> bool" where
  "processOne cfg h gs pl =
     (if gs = [] then (gs, pl, False)
      else
        (let guestCount = length gs;
             i = guestIndex pl mod guestCount;
             pl1 = pl\<lparr> guestIndex := (guestIndex pl + 1) mod guestCount \<rparr>
         in case gs ! i of
              None \<Rightarrow> (gs, pl1, False)
            | Some g \<Rightarrow>
                if is_guest g \<and> gid g \<noteq> None then
                  (let (g', pl2) = processGuest cfg h g pl1
                   in (gs[i := Some g'],
                       pl2\<lparr> statistics := (statistics pl2)\<lparr> guestsProcessed :=
                                               guestsProcessed (statistics pl2) + 1 \<rparr> \<rparr>,
                       True))
                else (gs, pl1, False)))"

text \<open>
  The loop \<open>while (processed < CONFIG.maxGuestsPerTick && !PerformanceMonitor.isOverBudget())\<close>.
  The clock is read only when the first conjunct holds. \<open>processed\<close> is incremented
  inside the \<open>try\<close>, after \<open>processGuest\<close>, and once more at the end of the body.
\<close>

function processLoop ::
  "config \<Rightarrow> host \<Rightarrow> guest option list \<Rightarrow> int \<Rightarrow> plugin \<Rightarrow> guest option list \<times> int \<times> plugin" where
  "processLoop cfg h gs processed pl =
     (if processed < maxGuestsPerTick cfg then
        (let (over, pl1) = isOverBudget cfg h pl
         in if over then (gs, processed, pl1)
            else
              (let (gs', pl2, done) = processOne cfg h gs pl1;
                   processed1 = (if done then processed + 1 else processed);
                   processed2 = processed1 + 1
               in processLoop cfg h gs' processed2 pl2))
      else (gs, processed, pl))"
  by pat_completeness auto
termination
  by (relation "measure (\<lambda>(cfg, h, gs, processed, pl). nat (maxGuestsPerTick cfg - processed))")
     auto

declare processLoop.simps [simp del]

definition processGuests ::
  "config \<Rightarrow> host \<Rightarrow> plugin \<Rightarrow> config \<times> plugin \<times> guest option list" where
  "processGuests cfg h pl =
     (let pl1 = startFrame h pl
      in case allGuests h of
           None \<Rightarrow> (cfg, snd (endFrame h pl1), [])
         | Some gs \<Rightarrow>
             if gs = [] then (cfg, snd (endFrame h pl1), [])
             else
               (let (gs', processed, pl2) = processLoop cfg h gs 0 pl1;
                    (frameTime, pl3) = endFrame h pl2;
                    pl4 = pl3\<lparr> statistics := (statistics pl3)\<lparr>
                                 lastFrameTime := of_int frameTime,
                                 avgFrameTime := getAverageFrameTime pl3 \<rparr> \<rparr>
                in (adjustProcessingRate cfg pl4, pl4, gs')))"

definition processMoodDecay :: "state \<Rightarrow> state" where
  "processMoodDecay st =
     st\<lparr> guests := map (\<lambda>(k, data).
            (k, if intensity (mood data) \<noteq> 128 then
                  (let decay = (if intensity (mood data) > 128 then - 1 else 1)
                   in data\<lparr> mood := (mood data)\<lparr> intensity :=
                              max 0 (min 255 (intensity (mood data) + decay)) \<rparr> \<rparr>)
                else data)) (guests st) \<rparr>"

definition onTick :: "config \<Rightarrow> host \<Rightarrow> plugin \<Rightarrow> config \<times> plugin \<times> guest option list" where
  "onTick cfg h pl =
     (if \<not> enabled cfg then (cfg, pl, [])
      else if \<not> canModifyGameState h then (cfg, pl, [])
      else
        (let pl = pl\<lparr> tickCounter := tickCounter pl + 1,
                      moodTickCounter := moodTickCounter pl + 1,
                      socialTickCounter := socialTickCounter pl + 1,
                      cleanupTickCounter := cleanupTickCounter pl + 1 \<rparr>;
             (cfg, pl, gs) =
               (if tickCounter pl \<ge> updateInterval cfg
                then processGuests cfg h (pl\<lparr> tickCounter := 0 \<rparr>) else (cfg, pl, []));
             pl = (if moodTickCounter pl \<ge> moodDecayInterval cfg
                   then pl\<lparr> moodTickCounter := 0, store := processMoodDecay (store pl) \<rparr>
                   else pl);
             pl = (if socialTickCounter pl \<ge> socialUpdateInterval cfg
                   then pl\<lparr> socialTickCounter := 0, store := updateGroups h (store pl) \<rparr>
                   else pl);
             pl = (if cleanupTickCounter pl \<ge> 500
                   then pl\<lparr> cleanupTickCounter := 0, store := cleanupOldData h (store pl) \<rparr>
                   else pl)
         in (cfg, pl\<lparr> statistics := (statistics pl)\<lparr> ticksProcessed :=
                         ticksProcessed (statistics pl) + 1 \<rparr> \<rparr>, gs)))"

section \<open>Concrete hosts and stores\<close>

text \<open>
  A host in single-player mode whose Gaussian draws all give 128, the same host seen
  from a multiplayer client, and the store after \<open>clear()\<close>.
\<close>

definition demo_host :: host where
  "demo_host = \<lparr> network = Some NetNone, ticksElapsed = 100, rand = (\<lambda>k. 5000),
     gaussian = (\<lambda>mean stdDev u1 u2. 128), climate = Some OtherWeather,
     allGuests = Some [], tileGuests = (\<lambda>x y. Some []), getEntity = (\<lambda>i. Some None),
     now = (\<lambda>k. 0) \<rparr>"

definition client_host :: host where
  "client_host = demo_host\<lparr> network := Some NetClient \<rparr>"

definition empty_state :: state where
  "empty_state = \<lparr> guests = [], groups = [], nextGroupId = 1, drawn = 0 \<rparr>"

text \<open>
  Guests 1 and 2 get their profiles, guest 1 founds a group and guest 2 joins it.
\<close>

definition pair_store :: state where
  "pair_store =
     (let st1 = snd (getGuestData demo_host (IdNum 1) empty_state);
          st2 = snd (getGuestData demo_host (IdNum 2) st1);
          (g, st3) = createGroup demo_host (IdNum 1) st2
      in snd (addToGroup (IdNum 2) g st3))"

text \<open>
  Guest 2 gets its profile, a group is founded for guest 5, which has no profile, and
  guest 2 joins it.
\<close>

definition orphan_store :: state where
  "orphan_store =
     (let st1 = snd (getGuestData demo_host (IdNum 2) empty_state);
          (g, st2) = createGroup demo_host (IdNum 5) st1
      in snd (addToGroup (IdNum 2) g st2))"

definition demo_guest :: guest where
  "demo_guest = \<lparr> gid = Some (IdNum 1), is_guest = True, gx = 0, gy = 0, hunger = 200,
     thirst = 200, toilet = 0, energy = 200, nausea = 0, happiness = 150,
     happinessTarget = 150, energyTarget = 200, isInPark = True, hasUmbrella = Some False \<rparr>"

text \<open>
  The trait vector of the scenario: thrill-seeking 200, nervous 30, adventurous 180,
  romantic 50, every other trait 128; and a store that holds it for guest 1.
\<close>

definition scenario_profile :: profile where
  "scenario_profile =
     (fst (createNewPersonality demo_host (IdNum 1) 0))\<lparr> traits :=
        (\<lambda>k. Some (case k of THRILL_SEEKER \<Rightarrow> 200 | NERVOUS \<Rightarrow> 30 | ADVENTUROUS \<Rightarrow> 180
                       | ROMANTIC \<Rightarrow> 50 | _ \<Rightarrow> 128)) \<rparr>"

definition scenario_store :: state where
  "scenario_store = empty_state\<lparr> guests := [(1, scenario_profile)] \<rparr>"

text \<open>
  A trait vector whose exact sum is the tie 4.5: thrill-seeking 0, nervous 8,
  adventurous 152, romantic 50, every other trait 128; and a store that holds it for
  guest 1.
\<close>

definition tie_profile :: profile where
  "tie_profile =
     (fst (createNewPersonality demo_host (IdNum 1) 0))\<lparr> traits :=
        (\<lambda>k. Some (case k of THRILL_SEEKER \<Rightarrow> 0 | NERVOUS \<Rightarrow> 8 | ADVENTUROUS \<Rightarrow> 152
                       | ROMANTIC \<Rightarrow> 50 | _ \<Rightarrow> 128)) \<rparr>"

definition tie_store :: state where
  "tie_store = empty_state\<lparr> guests := [(1, tie_profile)] \<rparr>"

text \<open>The behavior of an agent at a glance: the current behavior and its target.\<close>

definition behavior_summary :: "state \<Rightarrow> jsid \<Rightarrow> (behavior_type \<times> target option) option" where
  "behavior_summary st guestId =
     map_option (\<lambda>p. (behavior_current (behavior p), behavior_target (behavior p)))
       (map_of (guests st) (prop_key guestId))"

section \<open>The group invariant\<close>

text \<open>
  A stored group is well formed when its recorded leader is one of its members and
  every member has a profile whose group reference is the group's id.
\<close>

definition group_ok :: "state \<Rightarrow> group \<Rightarrow> bool" where
  "group_ok st grp =
     (leaderId grp \<in> set (members grp)
      \<and> list_all (\<lambda>m. case map_of (guests st) (prop_key m) of
                         None \<Rightarrow> False
                       | Some p \<Rightarrow> groupId (social p) = Some (group_id grp)) (members grp))"

definition groups_ok :: "state \<Rightarrow> bool" where
  "groups_ok st = list_all (\<lambda>(k, grp). group_ok st grp) (groups st)"

text \<open>The groups of a store at a glance: key, recorded leader and members.\<close>

definition group_summary :: "state \<Rightarrow> (nat \<times> jsid \<times> jsid list) list" where
  "group_summary st = map (\<lambda>(k, grp). (k, leaderId grp, members grp)) (groups st)"

text \<open>What an agent's memory holds about a ride: its record, and the favorite and the
  worst experience of the agent.\<close>

definition ride_summary ::
  "state \<Rightarrow> jsid \<Rightarrow> nat \<Rightarrow> (ride_memory option \<times> nat option \<times> nat option) option" where
  "ride_summary st guestId rideId =
     map_option (\<lambda>p. (ridesRidden (memory p) rideId, favoriteRide (memory p),
                        worstExperience (memory p)))
       (map_of (guests st) (prop_key guestId))"

text \<open>Hosts for the reconciliation pass: one whose enumeration of the live guests
  throws, and one that reports guest 2 alone.\<close>

definition throwing_host :: host where
  "throwing_host = demo_host\<lparr> allGuests := None \<rparr>"

definition guest2_host :: host where
  "guest2_host = demo_host\<lparr> allGuests := Some [Some (demo_guest\<lparr> gid := Some (IdNum 2) \<rparr>)] \<rparr>"

section \<open>The behavior cascade as the specification words it\<close>

text \<open>
  The specification lists fourteen rules in priority order and lets the first match
  decide. A rule's condition is either certain, or it holds with a probability, which
  the next draw of the random source settles once the rule's own test has passed.
\<close>

datatype rule_cond = Certain bool | Likely bool rat

fun first_match ::
  "host \<Rightarrow> (rule_cond \<times> behavior_type) list \<Rightarrow> nat \<Rightarrow> behavior_type option \<times> nat" where
  "first_match h [] n = (None, n)"
| "first_match h ((Certain c, b) # rules) n =
     (if c then (Some b, n) else first_match h rules n)"
| "first_match h ((Likely c p, b) # rules) n =
     (if c then
        (if of_nat (rand h n) / 10000 < p then (Some b, Suc n)
         else first_match h rules (Suc n))
      else first_match h rules n)"

definition cascade_rules ::
  "config \<Rightarrow> host \<Rightarrow> guest \<Rightarrow> profile \<Rightarrow> (rule_cond \<times> behavior_type) list" where
  "cascade_rules cfg h g data =
     (let raining = (weatherReactionsEnabled cfg
                      \<and> (climate h = Some Rain \<or> climate h = Some HeavyRain)
                      \<and> hasUmbrella g = Some False);
          thunder = (weatherReactionsEnabled cfg \<and> climate h = Some Thunder)
      in [ (Certain (toilet g > 180), SEEKING_TOILET),
           (Certain (hunger g < 40 \<and> trait_gt data HUNGRY 100), SEEKING_FOOD),
           (Certain (thirst g < 40), SEEKING_DRINK),
           (Certain (hunger g < 60), SEEKING_FOOD),
           (Certain (raining \<and> trait_gt data NERVOUS 150), SEEKING_SHELTER),
           (Likely raining (3 / 10), SEEKING_SHELTER),
           (Certain (thunder \<and> trait_gt data NERVOUS 100), SEEKING_SHELTER),
           (Certain (energy g < 30), RESTING),
           (Certain (truthy (groupId (social data)) \<and> \<not> isLeader (social data)),
              FOLLOWING_GROUP),
           (Certain (isLeader (social data)), LEADING_GROUP),
           (Likely (trait_gt data PHOTOGRAPHER 180) (1 / 10), PHOTO_TAKING),
           (Likely (trait_gt data COLLECTOR 180) (5 / 100), SHOPPING),
           (Likely (trait_gt data SOCIAL 170) (groupFormationChance cfg), SOCIALIZING),
           (Certain (mood_current (mood data) = BORED), SEEKING_RIDE),
           (Likely (mood_current (mood data) = SAD \<and> isInPark g) (1 / 10), LEAVING),
           (Certain (trait_gt data THRILL_SEEKER 150 \<or> trait_gt data ADVENTUROUS 150),
              SEEKING_RIDE) ])"

definition cascade ::
  "config \<Rightarrow> host \<Rightarrow> guest \<Rightarrow> profile \<Rightarrow> nat \<Rightarrow> behavior_type \<times> nat" where
  "cascade cfg h g data n =
     (case first_match h (cascade_rules cfg h g data) n of
        (None, n') \<Rightarrow> (WANDERING, n')
      | (Some b, n') \<Rightarrow> (b, n'))"

text \<open>A rule fires at a position of the random source when its test holds and, for a
  rule with a probability, the draw at that position falls below it.\<close>

fun fires :: "host \<Rightarrow> rule_cond \<Rightarrow> nat \<Rightarrow> bool" where
  "fires h (Certain c) n = c"
| "fires h (Likely c p) n = (c \<and> of_nat (rand h n) / 10000 < p)"

text \<open>A hungry agent in the rain: hunger signal 30, hungry trait 150, and a sad mood.\<close>

definition hungry_guest :: guest where
  "hungry_guest = demo_guest\<lparr> hunger := 30 \<rparr>"

definition hungry_profile :: profile where
  "hungry_profile =
     scenario_profile\<lparr> traits := (traits scenario_profile)(HUNGRY \<mapsto> 150),
                       mood := (mood scenario_profile)\<lparr> mood_current := SAD \<rparr> \<rparr>"

definition rain_host :: host where
  "rain_host = demo_host\<lparr> climate := Some Rain \<rparr>"

text \<open>A scheduler at rest over the store of guests 1 and 2.\<close>

definition demo_plugin :: plugin where
  "demo_plugin = \<lparr> store = pair_store, guestIndex = 0, tickCounter = 0, moodTickCounter = 0,
     socialTickCounter = 0, cleanupTickCounter = 0,
     statistics = \<lparr> guestsProcessed = 0, personalitiesCreated = 0, lastFrameTime = 0,
                    avgFrameTime = 0, ticksProcessed = 0 \<rparr>,
     frameStartTime = 0, frameTimes = [], clock = 0 \<rparr>"

text \<open>
  A host that reports five guests, with ids 1 to 5, and whose clock stands still, so
  that the frame budget is never reached.
\<close>

definition five_guests :: "guest option list" where
  "five_guests = map (\<lambda>i. Some (demo_guest\<lparr> gid := Some (IdNum i) \<rparr>)) [1, 2, 3, 4, 5]"

definition five_host :: host where
  "five_host = demo_host\<lparr> allGuests := Some five_guests \<rparr>"

text \<open>A list entry the loop of \<open>processGuests\<close> processes: an entity of type
  \<open>'guest'\<close> with an id.\<close>

definition valid_entry :: "guest option \<Rightarrow> bool" where
  "valid_entry x = (case x of None \<Rightarrow> False | Some g \<Rightarrow> is_guest g \<and> gid g \<noteq> None)"

section \<open>Trait generation\<close>








section \<open>Binary64 rounding\<close>

lemma ilog2_bounds: "0 < n \<Longrightarrow> 2 ^ ilog2 n \<le> n \<and> n < 2 ^ Suc (ilog2 n)"
proof (induction n rule: ilog2.induct)
  case (1 n)
  show ?case
  proof (cases "n < 2")
    case True
    with 1 have "n = 1" by simp
    then show ?thesis by (simp add: ilog2.simps)
  next
    case False
    then have "0 < n div 2" by simp
    with 1 False have ih: "2 ^ ilog2 (n div 2) \<le> n div 2 \<and> n div 2 < 2 ^ Suc (ilog2 (n div 2))"
      by simp
    have e: "ilog2 n = Suc (ilog2 (n div 2))" using False by (subst ilog2.simps) simp
    from ih have "2 * 2 ^ ilog2 (n div 2) \<le> n" by linarith
    moreover from ih have "n < 2 * 2 ^ Suc (ilog2 (n div 2))" by linarith
    ultimately show ?thesis unfolding e by simp
  qed
qed

lemma binade_bounds:
  assumes "x \<noteq> 0"
  shows "2 powi binade x \<le> \<bar>x\<bar> \<and> \<bar>x\<bar> < 2 powi (binade x + 1)"
proof -
  obtain p q where pq: "quotient_of \<bar>x\<bar> = (p, q)" by (cases "quotient_of \<bar>x\<bar>")
  have q0: "0 < q" using pq by (rule quotient_of_denom_pos)
  have ax: "\<bar>x\<bar> = of_int p / of_int q" using pq by (rule quotient_of_div)
  have "0 < \<bar>x\<bar>" using assms by simp
  then have p0: "0 < p" using ax q0 by (simp add: zero_less_divide_iff)
  define a where "a = ilog2 (nat p)"
  define b where "b = ilog2 (nat q)"
  define e where "e = int a - int b"
  from ilog2_bounds[of "nat p"] p0
  have pa: "2 ^ a \<le> nat p" "nat p < 2 ^ Suc a" by (simp_all add: a_def)
  from ilog2_bounds[of "nat q"] q0
  have qb: "2 ^ b \<le> nat q" "nat q < 2 ^ Suc b" by (simp_all add: b_def)
  have P: "(2::rat) ^ a \<le> of_int p" "of_int p < (2::rat) ^ Suc a"
  proof -
    have "of_nat (2 ^ a) \<le> (of_nat (nat p) :: rat)" using pa(1) by (simp only: of_nat_le_iff)
    then show "(2::rat) ^ a \<le> of_int p" using p0 by simp
    have "(of_nat (nat p) :: rat) < of_nat (2 ^ Suc a)" using pa(2) by (simp only: of_nat_less_iff)
    then show "of_int p < (2::rat) ^ Suc a" using p0 by simp
  qed
  have Q: "(2::rat) ^ b \<le> of_int q" "of_int q < (2::rat) ^ Suc b"
  proof -
    have "of_nat (2 ^ b) \<le> (of_nat (nat q) :: rat)" using qb(1) by (simp only: of_nat_le_iff)
    then show "(2::rat) ^ b \<le> of_int q" using q0 by simp
    have "(of_nat (nat q) :: rat) < of_nat (2 ^ Suc b)" using qb(2) by (simp only: of_nat_less_iff)
    then show "of_int q < (2::rat) ^ Suc b" using q0 by simp
  qed
  have pe: "(2::rat) powi e = 2 ^ a / 2 ^ b"
    by (simp add: e_def power_int_diff)
  have lo: "(2::rat) powi (e - 1) \<le> \<bar>x\<bar>"
  proof -
    have "(2::rat) powi (e - 1) = 2 ^ a / 2 ^ Suc b"
      by (simp add: power_int_diff pe)
    also have "\<dots> \<le> of_int p / 2 ^ Suc b" using P(1) by (simp add: divide_right_mono)
    also have "\<dots> \<le> of_int p / of_int q"
      using Q(2) p0 q0 by (intro divide_left_mono) (simp_all)
    finally show ?thesis by (simp add: ax)
  qed
  have hi: "\<bar>x\<bar> < (2::rat) powi (e + 1)"
  proof -
    have "of_int p / of_int q < 2 ^ Suc a / (of_int q :: rat)"
      using P(2) q0 by (simp add: divide_strict_right_mono)
    also have "\<dots> \<le> 2 ^ Suc a / 2 ^ b"
      using Q(1) q0 by (intro divide_left_mono) simp_all
    also have "\<dots> = (2::rat) powi (e + 1)"
      by (simp add: power_int_add pe)
    finally show ?thesis by (simp add: ax)
  qed
  have bd: "binade x = (if 2 powi e \<le> \<bar>x\<bar> then e else e - 1)"
    by (simp add: binade_def pq Let_def e_def a_def b_def)
  show ?thesis
  proof (cases "2 powi e \<le> \<bar>x\<bar>")
    case True
    with bd hi show ?thesis by simp
  next
    case False
    with bd lo show ?thesis by simp
  qed
qed

lemma round_even_error: "\<bar>of_int (round_even m) - m\<bar> \<le> 1 / 2"
proof -
  have "of_int \<lfloor>m\<rfloor> \<le> m" "m < of_int \<lfloor>m\<rfloor> + 1" by linarith+
  then show ?thesis by (auto simp: round_even_def Let_def)
qed

lemma fl_error:
  "\<bar>fl x - x\<bar> \<le> 2 powi (max (binade x) (- 1022) - 53)"
proof (cases "x = 0")
  case True
  then show ?thesis by (simp add: fl_def)
next
  case False
  define u :: rat where "u = 2 powi (max (binade x) (- 1022) - 52)"
  have u0: "0 < u" by (simp add: u_def)
  have f: "fl x = of_int (round_even (x / u)) * u" using False by (simp add: fl_def u_def Let_def)
  have "fl x - x = (of_int (round_even (x / u)) - x / u) * u"
    using u0 by (simp add: f field_simps)
  then have "\<bar>fl x - x\<bar> = \<bar>of_int (round_even (x / u)) - x / u\<bar> * u"
    using u0 by (simp add: abs_mult)
  also have "\<dots> \<le> (1 / 2) * u"
    using round_even_error[of "x / u"] u0 by (intro mult_right_mono) simp_all
  also have "\<dots> = 2 powi (max (binade x) (- 1022) - 53)"
    by (simp add: u_def power_int_diff)
  finally show ?thesis .
qed

lemma fl_near:
  assumes "\<bar>x\<bar> < 32"
  shows "\<bar>fl x - x\<bar> \<le> 1 / 2 ^ 49"
proof (cases "x = 0")
  case True
  then show ?thesis by (simp add: fl_def)
next
  case False
  have "2 powi binade x \<le> \<bar>x\<bar>" using binade_bounds[OF False] by simp
  with assms have "(2::rat) powi binade x < 2 powi 5" by simp
  then have "binade x < 5" by (rule power_int_le_imp_less_exp[rotated]) simp_all
  then have "max (binade x) (- 1022) - 53 \<le> - 49" by simp
  then have "(2::rat) powi (max (binade x) (- 1022) - 53) \<le> 2 powi (- 49)"
    by (intro power_int_increasing) simp_all
  also have "\<dots> = 1 / 2 ^ 49" by (simp add: power_int_minus field_simps)
  finally show ?thesis using fl_error[of x] by linarith
qed

lemma round_even_cert:
  assumes "\<bar>of_int k - m\<bar> < 1 / 2 \<or> (\<bar>of_int k - m\<bar> = 1 / 2 \<and> even k)"
  shows "round_even m = k"
proof -
  define f where "f = \<lfloor>m\<rfloor>"
  have f: "of_int f \<le> m" "m < of_int f + 1" unfolding f_def by linarith+
  from assms show ?thesis
  proof
    assume a: "\<bar>of_int k - m\<bar> < 1 / 2"
    then have "k = f \<or> k = f + 1"
    proof -
      from a f have "(of_int k :: rat) < of_int (f + 2)" "(of_int (f - 1) :: rat) < of_int k"
        by (simp_all, linarith+)
      then have "k < f + 2" "f - 1 < k" by (simp_all only: of_int_less_iff)
      then show ?thesis by linarith
    qed
    then show ?thesis
    proof
      assume "k = f" with a f show ?thesis
        by (simp add: round_even_def Let_def f_def[symmetric]; linarith?)
    next
      assume "k = f + 1" with a f show ?thesis
        by (simp add: round_even_def Let_def f_def[symmetric]; linarith?)
    qed
  next
    assume a: "\<bar>of_int k - m\<bar> = 1 / 2 \<and> even k"
    then have "m = of_int k + 1 / 2 \<or> m = of_int k - 1 / 2" by linarith
    then show ?thesis
    proof
      assume m: "m = of_int k + 1 / 2"
      then have "\<lfloor>m\<rfloor> = k" by (intro floor_unique) simp_all
      with m a show ?thesis by (simp add: round_even_def Let_def)
    next
      assume m: "m = of_int k - 1 / 2"
      then have "\<lfloor>m\<rfloor> = k - 1" by (intro floor_unique) simp_all
      with m a show ?thesis by (simp add: round_even_def Let_def)
    qed
  qed
qed

lemma binade_unique:
  assumes "2 powi e \<le> \<bar>x\<bar>" and "\<bar>x\<bar> < 2 powi (e + 1)"
  shows "binade x = e"
proof -
  have "0 < (2::rat) powi e" by (rule zero_less_power_int) simp
  with assms(1) have "0 < \<bar>x\<bar>" by linarith
  then have x0: "x \<noteq> 0" by simp
  note b = binade_bounds[OF x0]
  have "\<not> binade x < e"
  proof
    assume "binade x < e"
    then have "(2::rat) powi (binade x + 1) \<le> 2 powi e" by (intro power_int_increasing) simp_all
    with b assms show False by linarith
  qed
  moreover have "\<not> e < binade x"
  proof
    assume "e < binade x"
    then have "(2::rat) powi (e + 1) \<le> 2 powi binade x" by (intro power_int_increasing) simp_all
    with b assms show False by linarith
  qed
  ultimately show ?thesis by linarith
qed

lemma fl_cert:
  assumes n: "n \<le> 1074" and lo: "2 ^ 52 \<le> \<bar>x\<bar> * 2 ^ n" and hi: "\<bar>x\<bar> * 2 ^ n < 2 ^ 53"
    and k: "\<bar>of_int k - x * 2 ^ n\<bar> < 1 / 2 \<or> (\<bar>of_int k - x * 2 ^ n\<bar> = 1 / 2 \<and> even k)"
  shows "fl x = of_int k / 2 ^ n"
proof -
  have p: "(2::rat) powi (52 - int n) = 2 ^ 52 / 2 ^ n" "(2::rat) powi (52 - int n + 1) = 2 ^ 53 / 2 ^ n"
    by (simp_all add: power_int_diff power_int_add)
  have "2 powi (52 - int n) \<le> \<bar>x\<bar>" "\<bar>x\<bar> < 2 powi (52 - int n + 1)"
    unfolding p using lo hi by (simp_all add: field_simps)
  then have b: "binade x = 52 - int n" by (rule binade_unique)
  from lo have x0: "x \<noteq> 0" by (cases "x = 0") simp_all
  have m: "max (52 - int n) (- 1022) - 52 = - int n" using n by simp
  have u: "(2::rat) powi (- int n) = 1 / 2 ^ n" by (simp add: power_int_minus field_simps)
  have "round_even (x * 2 ^ n) = k" using k by (rule round_even_cert)
  then show ?thesis using x0 by (simp add: fl_def b m u Let_def)
qed

section \<open>The preferred ride intensity\<close>

lemma calculatePreferredIntensity_eq:
  assumes "traits data THRILL_SEEKER = Some ts" and "traits data NERVOUS = Some nv"
    and "traits data ADVENTUROUS = Some ad"
  shows "calculatePreferredIntensity data =
     Some (max 1 (min 15 (round (intensity_double ts nv ad (trait_gt data ROMANTIC 170)))))"
  using assms by (simp add: calculatePreferredIntensity_def intensity_double_def Let_def)

lemma intensity_double_near:
  assumes t: "0 \<le> ts" "ts \<le> 255" and n: "0 \<le> nv" "nv \<le> 255" and a: "0 \<le> ad" "ad \<le> 255"
  shows "\<bar>intensity_double ts nv ad rom - intensity_exact ts nv ad rom\<bar> \<le> 7 / 2 ^ 49"
proof -
  define d :: rat where "d = 1 / 2 ^ 49"
  have d: "0 < d" "d \<le> 1 / 100" by (simp_all add: d_def)
  define q1 :: rat where "q1 = of_int (ts - 128) / 40"
  define q2 :: rat where "q2 = of_int (nv - 128) / 50"
  define q3 :: rat where "q3 = of_int (ad - 128) / 80"
  have t': "- 128 \<le> (of_int (ts - 128) :: rat)" "(of_int (ts - 128) :: rat) \<le> 127"
    using t by simp_all
  have n': "- 128 \<le> (of_int (nv - 128) :: rat)" "(of_int (nv - 128) :: rat) \<le> 127"
    using n by simp_all
  have a': "- 128 \<le> (of_int (ad - 128) :: rat)" "(of_int (ad - 128) :: rat) \<le> 127"
    using a by simp_all
  have q1b: "- 4 \<le> q1" "q1 \<le> 4" using t' by (simp_all add: q1_def field_simps)
  have q2b: "- 3 \<le> q2" "q2 \<le> 3" using n' by (simp_all add: q2_def field_simps)
  have q3b: "- 2 \<le> q3" "q3 \<le> 2" using a' by (simp_all add: q3_def field_simps)
  define a1 where "a1 = fl q1"
  define b1 where "b1 = fl (5 + a1)"
  define a2 where "a2 = fl q2"
  define b2 where "b2 = fl (b1 - a2)"
  define a3 where "a3 = fl q3"
  define b3 where "b3 = fl (b2 + a3)"
  define b4 where "b4 = fl (b3 - 2)"
  have e1: "\<bar>a1 - q1\<bar> \<le> d" unfolding a1_def d_def using q1b by (intro fl_near) linarith
  have f1: "\<bar>b1 - (5 + a1)\<bar> \<le> d"
    unfolding b1_def d_def using q1b e1 d by (intro fl_near) linarith
  have e2: "\<bar>a2 - q2\<bar> \<le> d" unfolding a2_def d_def using q2b by (intro fl_near) linarith
  have f2: "\<bar>b2 - (b1 - a2)\<bar> \<le> d"
    unfolding b2_def d_def using q1b q2b e1 f1 e2 d by (intro fl_near) linarith
  have e3: "\<bar>a3 - q3\<bar> \<le> d" unfolding a3_def d_def using q3b by (intro fl_near) linarith
  have f3: "\<bar>b3 - (b2 + a3)\<bar> \<le> d"
    unfolding b3_def d_def using q1b q2b q3b e1 f1 e2 f2 e3 d by (intro fl_near) linarith
  have f4: "\<bar>b4 - (b3 - 2)\<bar> \<le> d"
    unfolding b4_def d_def using q1b q2b q3b e1 f1 e2 f2 e3 f3 d by (intro fl_near) linarith
  have dbl: "intensity_double ts nv ad rom = (if rom then b4 else b3)"
    by (simp add: intensity_double_def Let_def b4_def b3_def a3_def b2_def a2_def b1_def a1_def
        q1_def q2_def q3_def)
  have ex: "intensity_exact ts nv ad rom = 5 + q1 - q2 + q3 - (if rom then 2 else 0)"
    by (simp add: intensity_exact_def q1_def q2_def q3_def)
  have r1: "\<bar>b4 - (5 + q1 - q2 + q3 - 2)\<bar> \<le> 7 * d"
    using e1 f1 e2 f2 e3 f3 f4 d by linarith
  have r2: "\<bar>b3 - (5 + q1 - q2 + q3)\<bar> \<le> 7 * d"
    using e1 f1 e2 f2 e3 f3 d by linarith
  show ?thesis
  proof (cases rom)
    case True
    then show ?thesis using r1 unfolding dbl ex by (simp add: d_def)
  next
    case False
    then show ?thesis using r2 unfolding dbl ex by (simp add: d_def)
  qed
qed

lemma intensity_exact_grid:
  "intensity_exact ts nv ad rom =
     of_int (2000 + 10 * (ts - 128) - 8 * (nv - 128) + 5 * (ad - 128) - (if rom then 800 else 0)) / 400"
  by (simp add: intensity_exact_def field_simps)

lemma round_near_grid:
  fixes s x :: rat
  assumes x: "x = of_int K / 400" and near: "\<bar>s - x\<bar> < 1 / 800"
  shows "(round s = round x \<or> round s = round x - 1)
         \<and> (of_int (round x) \<noteq> x + 1 / 2 \<longrightarrow> round s = round x)"
proof -
  define F where "F = \<lfloor>x + 1 / 2\<rfloor>"
  have rx: "round x = F" by (simp add: round_def F_def)
  have fl1: "of_int F \<le> x + 1 / 2" "x + 1 / 2 < of_int F + 1" unfolding F_def by linarith+
  have y: "x + 1 / 2 = of_int (K + 200) / 400" by (simp add: x field_simps)
  show ?thesis
  proof (cases "of_int F = x + 1 / 2")
    case True
    have "of_int (F - 1) \<le> s + 1 / 2" "s + 1 / 2 < of_int F + 1"
      using True near by (simp_all, linarith+)
    then have "\<lfloor>s + 1 / 2\<rfloor> = F \<or> \<lfloor>s + 1 / 2\<rfloor> = F - 1" 
      by (metis add.commute diff_add_cancel floor_unique le_floor_iff linorder_not_less not_less_iff_gr_or_eq of_int_1 of_int_add zle_diff1_eq)
    then show ?thesis using True by (auto simp: round_def rx[unfolded round_def])
  next
    case False
    with fl1 have lt: "of_int F < x + 1 / 2" by linarith
    then have "of_int (400 * F) < (of_int (K + 200) :: rat)" unfolding y by (simp add: field_simps)
    then have "400 * F < K + 200" by (simp only: of_int_less_iff)
    then have "400 * F + 1 \<le> K + 200" by simp
    then have "(of_int (400 * F + 1) :: rat) \<le> of_int (K + 200)" by (simp only: of_int_le_iff)
    then have lo: "of_int F + 1 / 400 \<le> x + 1 / 2" unfolding y by (simp add: field_simps)
    from fl1(2) have "(of_int (K + 200) :: rat) < of_int (400 * F + 400)"
      unfolding y by (simp add: field_simps)
    then have "K + 200 < 400 * F + 400" by (simp only: of_int_less_iff)
    then have "K + 200 \<le> 400 * F + 399" by simp
    then have "(of_int (K + 200) :: rat) \<le> of_int (400 * F + 399)" by (simp only: of_int_le_iff)
    then have hi: "x + 1 / 2 \<le> of_int F + 399 / 400" unfolding y by (simp add: field_simps)
    have "of_int F \<le> s + 1 / 2" "s + 1 / 2 < of_int F + 1" using lo hi near by linarith+
    then have "\<lfloor>s + 1 / 2\<rfloor> = F" by (rule floor_unique)
    then show ?thesis by (simp add: round_def rx[unfolded round_def])
  qed
qed


lemma updateBehavior_enters_seeking_ride:
  assumes a: "canModifyGameState h" "ridePreferencesEnabled cfg"
      "map_of (guests st) (prop_key guestId) = Some data"
      "behavior_current (behavior data) \<noteq> SEEKING_RIDE"
      "fst (determineBehavior cfg h g data (drawn st)) = SEEKING_RIDE"
  shows "\<exists>p. map_of (guests (snd (updateBehavior cfg h guestId g st))) (prop_key guestId) = Some p
               \<and> behavior_current (behavior p) = SEEKING_RIDE
               \<and> behavior_target (behavior p) =
                   Some \<lparr> target_type = ''ride'',
                          preferredIntensity = calculatePreferredIntensity data \<rparr>"
proof -
  obtain n' where d: "determineBehavior cfg h g data (drawn st) = (SEEKING_RIDE, n')"
    using a(5) by (cases "determineBehavior cfg h g data (drawn st)") simp
  have cp: "calculatePreferredIntensity (data\<lparr>behavior := b, stats := s\<rparr>) = calculatePreferredIntensity data" for b s
    by (simp add: calculatePreferredIntensity_def trait_gt_def Let_def split: option.splits)
  show ?thesis
    using a d
    by (simp add: updateBehavior_def getGuestData_def executeBehavior_def handleSeekingRide_def
        update_conv cp)
qed

lemma clamp_near:
  fixes r r' :: int
  assumes "r' = r \<or> r' = r - 1"
  shows "max 1 (min 15 r') = max 1 (min 15 r) \<or> max 1 (min 15 r') = max 1 (min 15 r) - 1"
  using assms by auto

lemma intensity_double_tie: "intensity_double 0 8 152 False = of_int 5066549580791807 / 2 ^ 50"
proof -
  have q1: "fl (of_int (0 - 128) / 40) = of_int (- 7205759403792794) / 2 ^ 51" by (rule fl_cert) simp_all
  have b1: "fl (5 + of_int (- 7205759403792794) / 2 ^ 51) = of_int 8106479329266892 / 2 ^ 52" by (rule fl_cert) simp_all
  have q2: "fl (of_int (8 - 128) / 50) = of_int (- 5404319552844595) / 2 ^ 51" by (rule fl_cert) simp_all
  have b2: "fl (of_int 8106479329266892 / 2 ^ 52 - of_int (- 5404319552844595) / 2 ^ 51) = of_int 4728779608739020 / 2 ^ 50" by (rule fl_cert) simp_all
  have q3: "fl (of_int (152 - 128) / 80) = of_int 5404319552844595 / 2 ^ 54" by (rule fl_cert) simp_all
  have b3: "fl (of_int 4728779608739020 / 2 ^ 50 + of_int 5404319552844595 / 2 ^ 54) = of_int 5066549580791807 / 2 ^ 50" by (rule fl_cert) simp_all
  show ?thesis unfolding intensity_double_def Let_def q1 b1 q2 b2 q3 b3 by simp
qed

text \<open>
  Claim C8, as the program computes it. For every trait vector the preferred ride
  intensity is clamp(round(s), 1, 15), where s is the sum 5 + (thrillSeeker - 128)/40
  - (nervous - 128)/50 + (adventurous - 128)/80 - 2 [romantic > 170] accumulated from left
  to right in binary64, every quotient and every partial sum rounded; so it lies between
  1 and 15. For traits between 0 and 255 it is the value of the formula in exact
  arithmetic or one less, and it is that value whenever the exact sum is not halfway
  between two integers. When the behavior engine of an authoritative participant moves an
  agent into Seeking-ride, with ride preferences enabled, the computed value is what it
  stores as the behavior target.
\<close>

theorem C8_preferred_intensity:
  assumes "traits data THRILL_SEEKER = Some ts" and "traits data NERVOUS = Some nv"
    and "traits data ADVENTUROUS = Some ad"
  shows "calculatePreferredIntensity data =
       Some (max 1 (min 15 (round (intensity_double ts nv ad (trait_gt data ROMANTIC 170)))))
     \<and> (\<exists>v. calculatePreferredIntensity data = Some v \<and> 1 \<le> v \<and> v \<le> 15
          \<and> (0 \<le> ts \<and> ts \<le> 255 \<and> 0 \<le> nv \<and> nv \<le> 255 \<and> 0 \<le> ad \<and> ad \<le> 255
               \<longrightarrow> (v = max 1 (min 15 (round (intensity_exact ts nv ad (trait_gt data ROMANTIC 170))))
                     \<or> v = max 1 (min 15 (round (intensity_exact ts nv ad (trait_gt data ROMANTIC 170)))) - 1)
                  \<and> (of_int (round (intensity_exact ts nv ad (trait_gt data ROMANTIC 170)))
                        \<noteq> intensity_exact ts nv ad (trait_gt data ROMANTIC 170) + 1 / 2
                      \<longrightarrow> v = max 1 (min 15 (round (intensity_exact ts nv ad (trait_gt data ROMANTIC 170)))))))
     \<and> (canModifyGameState h \<and> ridePreferencesEnabled cfg
          \<and> map_of (guests st) (prop_key guestId) = Some data
          \<and> behavior_current (behavior data) \<noteq> SEEKING_RIDE
          \<and> fst (determineBehavior cfg h g data (drawn st)) = SEEKING_RIDE
        \<longrightarrow> (\<exists>p. map_of (guests (snd (updateBehavior cfg h guestId g st))) (prop_key guestId) = Some p
               \<and> behavior_current (behavior p) = SEEKING_RIDE
               \<and> behavior_target (behavior p) =
                   Some \<lparr> target_type = ''ride'',
                          preferredIntensity = calculatePreferredIntensity data \<rparr>))"
proof -
  define rom where "rom = trait_gt data ROMANTIC 170"
  define s where "s = intensity_double ts nv ad rom"
  define x where "x = intensity_exact ts nv ad rom"
  note eq = calculatePreferredIntensity_eq[OF assms, folded rom_def s_def]
  have near: "(round s = round x \<or> round s = round x - 1)
         \<and> (of_int (round x) \<noteq> x + 1 / 2 \<longrightarrow> round s = round x)"
    if r: "0 \<le> ts \<and> ts \<le> 255 \<and> 0 \<le> nv \<and> nv \<le> 255 \<and> 0 \<le> ad \<and> ad \<le> 255"
  proof (rule round_near_grid)
    show "x = of_int (2000 + 10 * (ts - 128) - 8 * (nv - 128) + 5 * (ad - 128)
                - (if rom then 800 else 0)) / 400"
      unfolding x_def by (rule intensity_exact_grid)
    have "\<bar>s - x\<bar> \<le> 7 / 2 ^ 49" unfolding s_def x_def using r by (intro intensity_double_near) simp_all
    also have "\<dots> < 1 / 800" by simp
    finally show "\<bar>s - x\<bar> < 1 / 800" .
  qed
  have rng: "\<exists>v. calculatePreferredIntensity data = Some v \<and> 1 \<le> v \<and> v \<le> 15
          \<and> (0 \<le> ts \<and> ts \<le> 255 \<and> 0 \<le> nv \<and> nv \<le> 255 \<and> 0 \<le> ad \<and> ad \<le> 255
               \<longrightarrow> (v = max 1 (min 15 (round x)) \<or> v = max 1 (min 15 (round x)) - 1)
                  \<and> (of_int (round x) \<noteq> x + 1 / 2 \<longrightarrow> v = max 1 (min 15 (round x))))"
    unfolding eq using near clamp_near[of "round s" "round x"] by auto
  from eq rng updateBehavior_enters_seeking_ride[of h cfg st guestId data g]
  show ?thesis unfolding rom_def s_def x_def by blast
qed

text \<open>
  The scenario of C8: thrill-seeking 200, nervous 30, adventurous 180, romantic 50. The
  exact sum is 9.41, no tie, so the program's value is the formula's value 9, and that is
  what entering Seeking-ride stores.
\<close>

theorem C8_preferred_intensity_witness:
  "calculatePreferredIntensity scenario_profile = Some 9
   \<and> max 1 (min 15 (round (intensity_exact 200 30 180 False))) = 9
   \<and> (\<exists>p. map_of (guests (snd (updateBehavior CONFIG demo_host (IdNum 1) demo_guest scenario_store))) 1 = Some p
        \<and> behavior_current (behavior p) = SEEKING_RIDE
        \<and> behavior_target (behavior p) = Some \<lparr> target_type = ''ride'', preferredIntensity = Some 9 \<rparr>)"
proof -
  have t: "traits scenario_profile THRILL_SEEKER = Some 200" "traits scenario_profile NERVOUS = Some 30"
    "traits scenario_profile ADVENTUROUS = Some 180" "traits scenario_profile ROMANTIC = Some 50"
    by (simp_all add: scenario_profile_def)
  have rom: "trait_gt scenario_profile ROMANTIC 170 = False" by (simp add: trait_gt_def t)
  have x: "intensity_exact 200 30 180 False = 941 / 100" by (simp add: intensity_exact_def)
  have r9: "round (941 / 100 :: rat) = 9" by (simp add: round_def floor_eq_iff)
  have nine: "max 1 (min 15 (round (intensity_exact 200 30 180 False))) = 9"
    unfolding x r9 by simp
  have notie: "of_int (round (intensity_exact 200 30 180 False)) \<noteq> intensity_exact 200 30 180 False + 1 / 2"
    unfolding x r9 by simp
  have c: "canModifyGameState demo_host" by (simp add: canModifyGameState_def isServer_def getMode_def demo_host_def)
  have r: "ridePreferencesEnabled CONFIG" by (simp add: CONFIG_def)
  have m: "map_of (guests scenario_store) (prop_key (IdNum 1)) = Some scenario_profile"
    by (simp add: scenario_store_def)
  have b: "behavior_current (behavior scenario_profile) \<noteq> SEEKING_RIDE"
    by (simp add: scenario_profile_def createNewPersonality_def calculateModifiers_def Let_def split: prod.splits)
  have d: "fst (determineBehavior CONFIG demo_host demo_guest scenario_profile (drawn scenario_store)) = SEEKING_RIDE"
    by (simp add: determineBehavior_def getWeatherBehavior_def CONFIG_def demo_host_def
        demo_guest_def trait_gt_def truthy_def chance_def Let_def scenario_profile_def
        createNewPersonality_def calculateModifiers_def split: prod.splits)
  note T = C8_preferred_intensity[OF t(1) t(2) t(3), of demo_host CONFIG scenario_store "IdNum 1"
      demo_guest, unfolded rom]
  from T notie nine have e9: "calculatePreferredIntensity scenario_profile = Some 9"
    by auto
  from T c r m b d
  have "\<exists>p. map_of (guests (snd (updateBehavior CONFIG demo_host (IdNum 1) demo_guest
                  scenario_store))) (prop_key (IdNum 1)) = Some p
        \<and> behavior_current (behavior p) = SEEKING_RIDE
        \<and> behavior_target (behavior p) =
             Some \<lparr> target_type = ''ride'',
                    preferredIntensity = calculatePreferredIntensity scenario_profile \<rparr>"
    by blast
  with e9 nine show ?thesis by simp
qed

text \<open>
  Claim C8 as stated fails at thrill-seeking 0, nervous 8, adventurous 152, romantic
  50: the formula gives round(4.5) = 5, the double sum of the program is
  5066549580791807 / 2^50, just below 4.5, and the program computes and stores 4.
\<close>

theorem C8_double_sum_rounds_a_tie_down:
  "traits tie_profile THRILL_SEEKER = Some 0 \<and> traits tie_profile NERVOUS = Some 8
   \<and> traits tie_profile ADVENTUROUS = Some 152 \<and> traits tie_profile ROMANTIC = Some 50
   \<and> max 1 (min 15 (round (5 + (0 - 128) / 40 - (8 - 128) / 50 + (152 - 128) / 80 - 0 :: rat))) = (5 :: int)
   \<and> calculatePreferredIntensity tie_profile = Some 4
   \<and> behavior_summary (snd (updateBehavior CONFIG demo_host (IdNum 1) demo_guest tie_store)) (IdNum 1)
       = Some (SEEKING_RIDE, Some \<lparr> target_type = ''ride'', preferredIntensity = Some 4 \<rparr>)"
proof -
  have t: "traits tie_profile THRILL_SEEKER = Some 0" "traits tie_profile NERVOUS = Some 8"
    "traits tie_profile ADVENTUROUS = Some 152" "traits tie_profile ROMANTIC = Some 50"
    by (simp_all add: tie_profile_def)
  have rom: "trait_gt tie_profile ROMANTIC 170 = False" by (simp add: trait_gt_def t)
  have five: "max 1 (min 15 (round (5 + (0 - 128) / 40 - (8 - 128) / 50 + (152 - 128) / 80 - 0 :: rat))) = (5 :: int)"
    by (simp add: round_def floor_eq_iff)
  have four: "calculatePreferredIntensity tie_profile = Some 4"
    unfolding calculatePreferredIntensity_eq[OF t(1) t(2) t(3)] rom intensity_double_tie
    by (simp add: round_def floor_eq_iff)
  have c: "canModifyGameState demo_host" by (simp add: canModifyGameState_def isServer_def getMode_def demo_host_def)
  have r: "ridePreferencesEnabled CONFIG" by (simp add: CONFIG_def)
  have m: "map_of (guests tie_store) (prop_key (IdNum 1)) = Some tie_profile"
    by (simp add: tie_store_def)
  have b: "behavior_current (behavior tie_profile) \<noteq> SEEKING_RIDE"
    by (simp add: tie_profile_def createNewPersonality_def calculateModifiers_def Let_def split: prod.splits)
  have d: "fst (determineBehavior CONFIG demo_host demo_guest tie_profile (drawn tie_store)) = SEEKING_RIDE"
    by (simp add: determineBehavior_def getWeatherBehavior_def CONFIG_def demo_host_def
        demo_guest_def trait_gt_def truthy_def chance_def Let_def tie_profile_def
        createNewPersonality_def calculateModifiers_def split: prod.splits)
  from updateBehavior_enters_seeking_ride[OF c r m b d]
  have s: "behavior_summary (snd (updateBehavior CONFIG demo_host (IdNum 1) demo_guest tie_store)) (IdNum 1)
       = Some (SEEKING_RIDE, Some \<lparr> target_type = ''ride'', preferredIntensity = Some 4 \<rparr>)"
    unfolding four by (auto simp: behavior_summary_def)
  from t five four s show ?thesis by simp
qed

section \<open>The behavior cascade\<close>

lemma chance_eq:
  "chance h c p n = (c \<and> of_nat (rand h n) / 10000 < p, if c then Suc n else n)"
  by (simp add: chance_def getRandomFloat_def)

lemma first_match_append:
  "first_match h (rs1 @ rs2) n =
     (case first_match h rs1 n of (Some b, n') \<Rightarrow> (Some b, n') | (None, n') \<Rightarrow> first_match h rs2 n')"
  by (induction h rs1 n rule: first_match.induct) simp_all

lemma weather_rules:
  "first_match h
     [(Certain ((weatherReactionsEnabled cfg \<and> (climate h = Some Rain \<or> climate h = Some HeavyRain)
                 \<and> hasUmbrella g = Some False) \<and> trait_gt data NERVOUS 150), SEEKING_SHELTER),
      (Likely (weatherReactionsEnabled cfg \<and> (climate h = Some Rain \<or> climate h = Some HeavyRain)
                 \<and> hasUmbrella g = Some False) (3 / 10), SEEKING_SHELTER),
      (Certain ((weatherReactionsEnabled cfg \<and> climate h = Some Thunder)
                  \<and> trait_gt data NERVOUS 100), SEEKING_SHELTER)] n =
   (if weatherReactionsEnabled cfg then getWeatherBehavior h g data n else (None, n))"
proof (cases "weatherReactionsEnabled cfg")
  case False
  then show ?thesis by simp
next
  case True
  show ?thesis
  proof (cases "climate h")
    case None
    with True show ?thesis by (simp add: getWeatherBehavior_def)
  next
    case (Some w)
    show ?thesis
    proof (cases "hasUmbrella g")
      case None
      with True Some show ?thesis by (cases w) (simp_all add: getWeatherBehavior_def)
    next
      case (Some u)
      with True \<open>climate h = Some w\<close> show ?thesis
        by (cases w; cases u) (simp_all add: getWeatherBehavior_def getRandomFloat_def)
    qed
  qed
qed

lemma tail_rules:
  "(case first_match h
       [(Likely P (1 / 10), PHOTO_TAKING), (Likely C (5 / 100), SHOPPING),
        (Likely S q, SOCIALIZING), (Certain B, SEEKING_RIDE), (Likely L (1 / 10), LEAVING),
        (Certain T, SEEKING_RIDE)] n1 of
      (None, n') \<Rightarrow> (WANDERING, n') | (Some b, n') \<Rightarrow> (b, n'))
   = (let (photo, n2) = chance h P (1 / 10) n1
      in if photo then (PHOTO_TAKING, n2)
         else (let (shop, n3) = chance h C (5 / 100) n2
               in if shop then (SHOPPING, n3)
                  else (let (soc, n4) = chance h S q n3
                        in if soc then (SOCIALIZING, n4)
                           else if B then (SEEKING_RIDE, n4)
                           else (let (leave, n5) = chance h L (1 / 10) n4
                                 in if leave then (LEAVING, n5)
                                    else if T then (SEEKING_RIDE, n5)
                                    else (WANDERING, n5)))))"
  by (simp add: chance_eq Let_def)

lemma determineBehavior_cascade: "determineBehavior cfg h g data n = cascade cfg h g data n"
proof -
  define H where "H = [(Certain (toilet g > 180), SEEKING_TOILET),
           (Certain (hunger g < 40 \<and> trait_gt data HUNGRY 100), SEEKING_FOOD),
           (Certain (thirst g < 40), SEEKING_DRINK),
           (Certain (hunger g < 60), SEEKING_FOOD)]"
  define W where "W = [(Certain ((weatherReactionsEnabled cfg \<and> (climate h = Some Rain \<or> climate h = Some HeavyRain)
                 \<and> hasUmbrella g = Some False) \<and> trait_gt data NERVOUS 150), SEEKING_SHELTER),
      (Likely (weatherReactionsEnabled cfg \<and> (climate h = Some Rain \<or> climate h = Some HeavyRain)
                 \<and> hasUmbrella g = Some False) (3 / 10), SEEKING_SHELTER),
      (Certain ((weatherReactionsEnabled cfg \<and> climate h = Some Thunder)
                  \<and> trait_gt data NERVOUS 100), SEEKING_SHELTER)]"
  define M where "M = [(Certain (energy g < 30), RESTING),
           (Certain (truthy (groupId (social data)) \<and> \<not> isLeader (social data)),
              FOLLOWING_GROUP),
           (Certain (isLeader (social data)), LEADING_GROUP)]"
  define T where "T = [(Likely (trait_gt data PHOTOGRAPHER 180) (1 / 10), PHOTO_TAKING),
           (Likely (trait_gt data COLLECTOR 180) (5 / 100), SHOPPING),
           (Likely (trait_gt data SOCIAL 170) (groupFormationChance cfg), SOCIALIZING),
           (Certain (mood_current (mood data) = BORED), SEEKING_RIDE),
           (Likely (mood_current (mood data) = SAD \<and> isInPark g) (1 / 10), LEAVING),
           (Certain (trait_gt data THRILL_SEEKER 150 \<or> trait_gt data ADVENTUROUS 150),
              SEEKING_RIDE)]"
  have rules: "cascade_rules cfg h g data = H @ W @ M @ T"
    unfolding cascade_rules_def Let_def H_def W_def M_def T_def by (simp only: append.simps)
  have hH: "first_match h H n =
      (if toilet g > 180 then (Some SEEKING_TOILET, n)
       else if hunger g < 40 \<and> trait_gt data HUNGRY 100 then (Some SEEKING_FOOD, n)
       else if thirst g < 40 then (Some SEEKING_DRINK, n)
       else if hunger g < 60 then (Some SEEKING_FOOD, n) else (None, n))"
    by (simp add: H_def)
  have hW: "first_match h W m =
      (if weatherReactionsEnabled cfg then getWeatherBehavior h g data m else (None, m))" for m
    unfolding W_def by (rule weather_rules)
  have hM: "first_match h M m =
      (if energy g < 30 then (Some RESTING, m)
       else if truthy (groupId (social data)) \<and> \<not> isLeader (social data)
         then (Some FOLLOWING_GROUP, m)
       else if isLeader (social data) then (Some LEADING_GROUP, m) else (None, m))" for m
    by (simp add: M_def)
  note hT = tail_rules[of h "trait_gt data PHOTOGRAPHER 180" "trait_gt data COLLECTOR 180"
      "trait_gt data SOCIAL 170" "groupFormationChance cfg" "mood_current (mood data) = BORED"
      "mood_current (mood data) = SAD \<and> isInPark g"
      "trait_gt data THRILL_SEEKER 150 \<or> trait_gt data ADVENTUROUS 150", folded T_def]
  show ?thesis
    unfolding cascade_def rules determineBehavior_def
    by (simp add: first_match_append hH hW hM hT[symmetric] split: prod.splits option.splits)
qed

lemma first_match_Some:
  "first_match h rules n = (Some b, n')
   \<Longrightarrow> \<exists>pre r post m. rules = pre @ (r, b) # post \<and> first_match h pre n = (None, m) \<and> fires h r m"
proof (induction h rules n rule: first_match.induct)
  case (1 h n)
  then show ?case by simp
next
  case (2 h c b0 rules n)
  show ?case
  proof (cases c)
    case True
    with 2 have "b0 = b" by simp
    with True have "(Certain c, b0) # rules = [] @ (Certain c, b) # rules \<and> first_match h [] n = (None, n) \<and> fires h (Certain c) n"
      by simp
    then show ?thesis by blast
  next
    case False
    with 2 obtain pre r post m where
      p: "rules = pre @ (r, b) # post" "first_match h pre n = (None, m)" "fires h r m"
      by auto
    with False have "(Certain c, b0) # rules = ((Certain c, b0) # pre) @ (r, b) # post
        \<and> first_match h ((Certain c, b0) # pre) n = (None, m) \<and> fires h r m"
      by simp
    then show ?thesis by blast
  qed
next
  case (3 h c p b0 rules n)
  show ?case
  proof (cases "c \<and> of_nat (rand h n) / 10000 < p")
    case True
    with 3 have "b0 = b" by simp
    with True have "(Likely c p, b0) # rules = [] @ (Likely c p, b) # rules \<and> first_match h [] n = (None, n) \<and> fires h (Likely c p) n"
      by simp
    then show ?thesis by blast
  next
    case False
    show ?thesis
    proof (cases c)
      case True
      with False have nd: "\<not> of_nat (rand h n) / 10000 < p" by simp
      with True 3 obtain pre r post m where
        p: "rules = pre @ (r, b) # post" "first_match h pre (Suc n) = (None, m)" "fires h r m"
        by auto
      with True nd have "(Likely c p, b0) # rules = ((Likely c p, b0) # pre) @ (r, b) # post
        \<and> first_match h ((Likely c p, b0) # pre) n = (None, m) \<and> fires h r m"
        by simp
      then show ?thesis by blast
    next
      case nc: False
      with 3 obtain pre r post m where
        p: "rules = pre @ (r, b) # post" "first_match h pre n = (None, m)" "fires h r m"
        by auto
      with nc have "(Likely c p, b0) # rules = ((Likely c p, b0) # pre) @ (r, b) # post
        \<and> first_match h ((Likely c p, b0) # pre) n = (None, m) \<and> fires h r m"
        by simp
      then show ?thesis by blast
    qed
  qed
qed

text \<open>
  Claim C4. For fixed inputs and random draws \<open>determineBehavior\<close> returns what the
  documented cascade returns: the result of the first rule that matches, every rule
  before it having failed; in particular an agent with hunger signal 30, hungry trait
  150 and restroom need at most 180 is Seeking-food whatever its mood and the weather.
\<close>

theorem C4_behavior_cascade:
  "determineBehavior cfg h g data n = cascade cfg h g data n
   \<and> (first_match h (cascade_rules cfg h g data) n = (Some b, n')
        \<longrightarrow> (\<exists>pre r post m. cascade_rules cfg h g data = pre @ (r, b) # post
                \<and> first_match h pre n = (None, m) \<and> fires h r m))
   \<and> (hunger g = 30 \<and> traits data HUNGRY = Some 150 \<and> toilet g \<le> 180
        \<longrightarrow> determineBehavior cfg h g data n = (SEEKING_FOOD, n))"
proof -
  have "determineBehavior cfg h g data n = (SEEKING_FOOD, n)"
    if "hunger g = 30" "traits data HUNGRY = Some 150" "toilet g \<le> 180"
    using that by (simp add: determineBehavior_def trait_gt_def)
  with determineBehavior_cascade first_match_Some show ?thesis by blast
qed

text \<open>The scenario of C4, with a sad agent in the rain.\<close>

theorem C4_behavior_cascade_witness:
  "hunger hungry_guest = 30 \<and> traits hungry_profile HUNGRY = Some 150 \<and> toilet hungry_guest \<le> 180
   \<and> mood_current (mood hungry_profile) = SAD \<and> climate rain_host = Some Rain
   \<and> first_match rain_host (cascade_rules CONFIG rain_host hungry_guest hungry_profile) 0
       = (Some SEEKING_FOOD, 0)
   \<and> determineBehavior CONFIG rain_host hungry_guest hungry_profile 0 = (SEEKING_FOOD, 0)"
proof -
  have a: "hunger hungry_guest = 30" "toilet hungry_guest \<le> 180"
    and t0: "toilet hungry_guest = 0"
    by (simp_all add: hungry_guest_def demo_guest_def)
  have b: "traits hungry_profile HUNGRY = Some 150" "mood_current (mood hungry_profile) = SAD"
    by (simp_all add: hungry_profile_def)
  have c: "climate rain_host = Some Rain" by (simp add: rain_host_def)
  have f: "first_match rain_host (cascade_rules CONFIG rain_host hungry_guest hungry_profile) 0
       = (Some SEEKING_FOOD, 0)"
    by (simp add: cascade_rules_def Let_def a(1) t0 b trait_gt_def)
  from C4_behavior_cascade[of CONFIG rain_host hungry_guest hungry_profile 0 SEEKING_FOOD 0] a b
  have "determineBehavior CONFIG rain_host hungry_guest hungry_profile 0 = (SEEKING_FOOD, 0)"
    by blast
  with a b c f show ?thesis by blast
qed

section \<open>Groups in the store\<close>

lemmas alist_conv = update_conv' delete_conv' map_of_map_entry

lemmas store_eval =
  empty_state_def demo_host_def getGuestData_def createNewPersonality_def
  calculateModifiers_def PERSONALITY_TRAITS_def getGaussianRandom_def getRandomFloat_def
  createGroup_def addToGroup_def removeFromGroup_def truthy_def Let_def

lemma pair_store_shape:
  "\<exists>p1 p2. pair_store =
       \<lparr> guests = [(1, p1), (2, p2)],
         groups = [(1, \<lparr> group_id = 1, leaderId = IdNum 1, members = [IdNum 1, IdNum 2],
                         formation = ''follow'', targetRide = None, group_createdTick = 100 \<rparr>)],
         nextGroupId = 2, drawn = 48 \<rparr>
     \<and> social p1 = \<lparr> groupId = Some 1, isLeader = True, friendIds = [], recentInteractions = 0 \<rparr>
     \<and> social p2 = \<lparr> groupId = Some 1, isLeader = False, friendIds = [], recentInteractions = 0 \<rparr>"
  by (simp add: pair_store_def store_eval)

text \<open>
  Claim C1. Every stored group keeps its recorded leader among its members, and every
  member's profile refers back to the group, after each mutation of the store; removing
  the profile of a group's leader promotes another member or dissolves the group.
  \<open>removeFromGroup\<close> does so. \<open>removeGuestData\<close> does not: on the store in which
  guest 1 leads the group of guests 1 and 2, removing the profile of guest 1 leaves the
  group with members [2] and recorded leader 1. The reconciliation pass hands
  \<open>removeGuestData\<close> the key as a string, which \<open>indexOf\<close> does not find among the
  numbers in \<open>members\<close>: the group keeps both members, one of them without a profile.
\<close>

theorem C1_profile_removal_leaves_stale_group:
  "groups_ok pair_store
   \<and> group_summary pair_store
       = [(1, IdNum 1, [IdNum 1, IdNum 2])]
   \<and> group_summary (removeGuestData (IdNum 1) pair_store)
       = [(1, IdNum 1, [IdNum 2])]
   \<and> \<not> groups_ok (removeGuestData (IdNum 1) pair_store)
   \<and> map fst (guests (cleanupOldData guest2_host pair_store)) = [2]
   \<and> group_summary (cleanupOldData guest2_host pair_store)
       = [(1, IdNum 1, [IdNum 1, IdNum 2])]
   \<and> \<not> groups_ok (cleanupOldData guest2_host pair_store)
   \<and> group_summary (removeFromGroup (IdNum 1) pair_store)
       = [(1, IdNum 2, [IdNum 2])]
   \<and> groups_ok (removeFromGroup (IdNum 1) pair_store)"
proof -
  obtain p1 p2 where s: "pair_store =
       \<lparr> guests = [(1, p1), (2, p2)],
         groups = [(1, \<lparr> group_id = 1, leaderId = IdNum 1, members = [IdNum 1, IdNum 2],
                         formation = ''follow'', targetRide = None, group_createdTick = 100 \<rparr>)],
         nextGroupId = 2, drawn = 48 \<rparr>"
    and p: "social p1 = \<lparr> groupId = Some 1, isLeader = True, friendIds = [], recentInteractions = 0 \<rparr>"
      "social p2 = \<lparr> groupId = Some 1, isLeader = False, friendIds = [], recentInteractions = 0 \<rparr>"
    using pair_store_shape by blast
  show ?thesis
    unfolding s
    by (simp add: p removeGuestData_def cleanupOldData_def guest2_host_def demo_host_def
        demo_guest_def validGuestIds_def groups_ok_def group_ok_def removeFromGroup_def
        group_summary_def)
qed

lemma dissolveGroup_gone: "map_of (groups (dissolveGroup g st)) g = None"
  by (simp add: dissolveGroup_def alist_conv Let_def split: option.splits)

lemma updateGroup_small_gone:
  "map_of (groups st) g = Some grp \<Longrightarrow> length (members grp) < 2
   \<Longrightarrow> map_of (groups (updateGroup h g st)) g = None"
  by (simp add: updateGroup_def dissolveGroup_gone)

lemma resolvedGroup_None:
  "resolvedGroup st guestId = None \<Longrightarrow> removeFromGroup guestId st = st"
  by (auto simp: resolvedGroup_def removeFromGroup_def split: option.splits if_splits)

lemma resolvedGroup_Some:
  assumes "resolvedGroup st guestId = Some (g, grp)"
  shows "\<exists>data. map_of (guests st) (prop_key guestId) = Some data
           \<and> groupId (social data) = Some g \<and> g \<noteq> 0 \<and> map_of (groups st) g = Some grp"
  using assms by (auto simp: resolvedGroup_def split: option.splits if_splits)

lemma removeFromGroup_group:
  assumes "resolvedGroup st guestId = Some (g, grp)"
  shows "map_of (groups (removeFromGroup guestId st)) g
          = (if leaderId grp = guestId
             then (case remove1 guestId (members grp) of
                     [] \<Rightarrow> None
                   | newLeaderId # rest \<Rightarrow>
                       Some (grp\<lparr> members := newLeaderId # rest, leaderId := newLeaderId \<rparr>))
             else Some (grp\<lparr> members := remove1 guestId (members grp) \<rparr>))"
proof -
  from resolvedGroup_Some[OF assms] obtain data where
    d: "map_of (guests st) (prop_key guestId) = Some data" "groupId (social data) = Some g"
      "g \<noteq> 0" "map_of (groups st) g = Some grp" by blast
  show ?thesis using d
    by (simp add: removeFromGroup_def alist_conv Let_def split: list.splits)
qed

lemma removeFromGroup_other_groups:
  assumes "resolvedGroup st guestId = Some (g, grp)" and "k \<noteq> g"
  shows "map_of (groups (removeFromGroup guestId st)) k = map_of (groups st) k"
proof -
  from resolvedGroup_Some[OF assms(1)] obtain data where
    d: "map_of (guests st) (prop_key guestId) = Some data" "groupId (social data) = Some g"
      "g \<noteq> 0" "map_of (groups st) g = Some grp" by blast
  show ?thesis using d assms(2)
    by (simp add: removeFromGroup_def alist_conv Let_def split: list.splits)
qed

lemma removeFromGroup_deletes_iff:
  "map_of (groups (removeFromGroup guestId st)) k = None
     \<longleftrightarrow> map_of (groups st) k = None
          \<or> (\<exists>grp. resolvedGroup st guestId = Some (k, grp) \<and> leaderId grp = guestId
                \<and> remove1 guestId (members grp) = [])"
proof (cases "resolvedGroup st guestId")
  case None
  with resolvedGroup_None[OF None] show ?thesis by simp
next
  case (Some a)
  obtain g grp where a: "a = (g, grp)" by (cases a)
  note r = Some[unfolded a]
  from resolvedGroup_Some[OF r] have gg: "map_of (groups st) g = Some grp" by blast
  show ?thesis
  proof (cases "k = g")
    case True
    show ?thesis unfolding True removeFromGroup_group[OF r] using r gg
      by (auto split: list.splits)
  next
    case False
    show ?thesis unfolding removeFromGroup_other_groups[OF r False] using r False by auto
  qed
qed

lemma removeFromGroup_leader_of_two:
  assumes res: "resolvedGroup st guestId = Some (g, grp)"
    and lead: "leaderId grp = guestId"
    and two: "members grp = [guestId, other] \<or> members grp = [other, guestId]"
    and neq: "other \<noteq> guestId"
  shows "map_of (groups (removeFromGroup guestId st)) g
           = Some (grp\<lparr> members := [other], leaderId := other \<rparr>)"
    and "map_of (guests st) (prop_key other) = Some od \<and> prop_key other \<noteq> prop_key guestId
         \<longrightarrow> map_of (guests (removeFromGroup guestId st)) (prop_key other)
              = Some (od\<lparr> social := (social od)\<lparr> isLeader := True \<rparr> \<rparr>)"
    and "map_of (groups (updateGroup h g (removeFromGroup guestId st))) g = None"
proof -
  from resolvedGroup_Some[OF res] obtain data where
    d: "map_of (guests st) (prop_key guestId) = Some data" "groupId (social data) = Some g"
      "g \<noteq> 0" "map_of (groups st) g = Some grp" by blast
  have r: "remove1 guestId (members grp) = [other]" using two neq by auto
  show 1: "map_of (groups (removeFromGroup guestId st)) g
           = Some (grp\<lparr> members := [other], leaderId := other \<rparr>)"
    unfolding removeFromGroup_group[OF res] using lead r by simp
  show "map_of (guests st) (prop_key other) = Some od \<and> prop_key other \<noteq> prop_key guestId
         \<longrightarrow> map_of (guests (removeFromGroup guestId st)) (prop_key other)
              = Some (od\<lparr> social := (social od)\<lparr> isLeader := True \<rparr> \<rparr>)"
    using d lead r by (simp add: removeFromGroup_def alist_conv Let_def)
  show "map_of (groups (updateGroup h g (removeFromGroup guestId st))) g = None"
    by (rule updateGroup_small_gone[OF 1]) simp
qed

text \<open>
  Claim C2, as the code has it. \<open>removeFromGroup\<close> changes nothing unless the agent
  has a profile whose group reference is truthy and names a group of the store. When it
  does, the first occurrence of the agent leaves the member list of that group and no
  other group changes. If the agent is the recorded leader of the group, the first
  remaining member becomes the recorded leader, and the group is deleted when no member
  remains; if it is not the leader the group only loses the member. So when the leader of
  a group of exactly two members is removed, the other member becomes the recorded leader
  and, if it has a profile under a key of its own, its leader flag is set; the group stays
  in the store with that one member until the maintenance pass \<open>updateGroup\<close> dissolves
  it. \<open>removeFromGroup\<close> deletes a group if and only if the departing agent is its
  recorded leader and no member remains.
\<close>

theorem C2_leader_removal:
  "(resolvedGroup st guestId = None \<longrightarrow> removeFromGroup guestId st = st)
   \<and> (resolvedGroup st guestId = Some (g, grp) \<longrightarrow>
        map_of (groups (removeFromGroup guestId st)) g
          = (if leaderId grp = guestId
             then (case remove1 guestId (members grp) of
                     [] \<Rightarrow> None
                   | newLeaderId # rest \<Rightarrow>
                       Some (grp\<lparr> members := newLeaderId # rest, leaderId := newLeaderId \<rparr>))
             else Some (grp\<lparr> members := remove1 guestId (members grp) \<rparr>))
        \<and> (k \<noteq> g \<longrightarrow> map_of (groups (removeFromGroup guestId st)) k = map_of (groups st) k)
        \<and> (leaderId grp = guestId
             \<and> (members grp = [guestId, other] \<or> members grp = [other, guestId])
             \<and> other \<noteq> guestId
           \<longrightarrow> map_of (groups (removeFromGroup guestId st)) g
                 = Some (grp\<lparr> members := [other], leaderId := other \<rparr>)
               \<and> (map_of (guests st) (prop_key other) = Some od
                      \<and> prop_key other \<noteq> prop_key guestId
                    \<longrightarrow> map_of (guests (removeFromGroup guestId st)) (prop_key other)
                          = Some (od\<lparr> social := (social od)\<lparr> isLeader := True \<rparr> \<rparr>))
               \<and> map_of (groups (updateGroup h g (removeFromGroup guestId st))) g = None))
   \<and> (map_of (groups (removeFromGroup guestId st)) k' = None
        \<longleftrightarrow> map_of (groups st) k' = None
             \<or> (\<exists>grp'. resolvedGroup st guestId = Some (k', grp') \<and> leaderId grp' = guestId
                   \<and> remove1 guestId (members grp') = []))"
proof (intro conjI impI)
  assume "resolvedGroup st guestId = None"
  then show "removeFromGroup guestId st = st" by (rule resolvedGroup_None)
next
  assume r: "resolvedGroup st guestId = Some (g, grp)"
  show "map_of (groups (removeFromGroup guestId st)) g
          = (if leaderId grp = guestId
             then (case remove1 guestId (members grp) of
                     [] \<Rightarrow> None
                   | newLeaderId # rest \<Rightarrow>
                       Some (grp\<lparr> members := newLeaderId # rest, leaderId := newLeaderId \<rparr>))
             else Some (grp\<lparr> members := remove1 guestId (members grp) \<rparr>))"
    by (rule removeFromGroup_group[OF r])
next
  assume r: "resolvedGroup st guestId = Some (g, grp)" and "k \<noteq> g"
  then show "map_of (groups (removeFromGroup guestId st)) k = map_of (groups st) k"
    by (rule removeFromGroup_other_groups)
next
  assume r: "resolvedGroup st guestId = Some (g, grp)"
    and l: "leaderId grp = guestId
             \<and> (members grp = [guestId, other] \<or> members grp = [other, guestId])
             \<and> other \<noteq> guestId"
  from l have l1: "leaderId grp = guestId"
    and l2: "members grp = [guestId, other] \<or> members grp = [other, guestId]"
    and l3: "other \<noteq> guestId" by blast+
  show "map_of (groups (removeFromGroup guestId st)) g
                 = Some (grp\<lparr> members := [other], leaderId := other \<rparr>)"
    by (rule removeFromGroup_leader_of_two(1)[OF r l1 l2 l3])
  show "map_of (groups (updateGroup h g (removeFromGroup guestId st))) g = None"
    by (rule removeFromGroup_leader_of_two(3)[OF r l1 l2 l3])
  assume "map_of (guests st) (prop_key other) = Some od \<and> prop_key other \<noteq> prop_key guestId"
  with removeFromGroup_leader_of_two(2)[OF r l1 l2 l3, of od]
  show "map_of (guests (removeFromGroup guestId st)) (prop_key other)
                          = Some (od\<lparr> social := (social od)\<lparr> isLeader := True \<rparr> \<rparr>)"
    by blast
next
  show "map_of (groups (removeFromGroup guestId st)) k' = None
        \<longleftrightarrow> map_of (groups st) k' = None
             \<or> (\<exists>grp'. resolvedGroup st guestId = Some (k', grp') \<and> leaderId grp' = guestId
                   \<and> remove1 guestId (members grp') = [])"
    by (rule removeFromGroup_deletes_iff)
qed

text \<open>
  Claim C2 as stated fails: after the leader of the two-member group is removed, the
  group has exactly one member and is still in the store; so it is after the removal of
  the other member.
\<close>

theorem C2_one_member_group_persists:
  "group_summary pair_store
       = [(1, IdNum 1, [IdNum 1, IdNum 2])]
   \<and> group_summary (removeFromGroup (IdNum 1) pair_store)
       = [(1, IdNum 2, [IdNum 2])]
   \<and> length (getGroupMembers 1 (removeFromGroup (IdNum 1) pair_store)) = 1
   \<and> map_of (groups (removeFromGroup (IdNum 1) pair_store)) 1 \<noteq> None
   \<and> group_summary (removeFromGroup (IdNum 2) pair_store)
       = [(1, IdNum 1, [IdNum 1])]"
proof -
  obtain p1 p2 where s: "pair_store =
       \<lparr> guests = [(1, p1), (2, p2)],
         groups = [(1, \<lparr> group_id = 1, leaderId = IdNum 1, members = [IdNum 1, IdNum 2],
                         formation = ''follow'', targetRide = None, group_createdTick = 100 \<rparr>)],
         nextGroupId = 2, drawn = 48 \<rparr>"
    and p: "social p1 = \<lparr> groupId = Some 1, isLeader = True, friendIds = [], recentInteractions = 0 \<rparr>"
      "social p2 = \<lparr> groupId = Some 1, isLeader = False, friendIds = [], recentInteractions = 0 \<rparr>"
    using pair_store_shape by blast
  show ?thesis
    unfolding s by (simp add: p removeFromGroup_def getGroupMembers_def group_summary_def)
qed

lemma orphan_store_shape:
  "\<exists>p2. orphan_store =
       \<lparr> guests = [(2, p2)],
         groups = [(1, \<lparr> group_id = 1, leaderId = IdNum 5, members = [IdNum 5, IdNum 2],
                         formation = ''follow'', targetRide = None, group_createdTick = 100 \<rparr>)],
         nextGroupId = 2, drawn = 24 \<rparr>
     \<and> social p2 = \<lparr> groupId = Some 1, isLeader = False, friendIds = [], recentInteractions = 0 \<rparr>"
  by (simp add: orphan_store_def store_eval)

text \<open>
  C2 at the store in which guest 1 leads the group of guests 1 and 2, and at the store in
  which the recorded leader 5 of the group of 5 and 2 has no profile: removing 5 changes
  nothing.
\<close>

theorem C2_leader_removal_witness:
  "(\<exists>p1 p2 grp. map_of (guests pair_store) 1 = Some p1 \<and> map_of (guests pair_store) 2 = Some p2
      \<and> resolvedGroup pair_store (IdNum 1) = Some (1, grp)
      \<and> leaderId grp = IdNum 1 \<and> members grp = [IdNum 1, IdNum 2]
      \<and> map_of (groups (removeFromGroup (IdNum 1) pair_store)) 1
            = Some (grp\<lparr> members := [IdNum 2], leaderId := IdNum 2 \<rparr>)
      \<and> map_of (guests (removeFromGroup (IdNum 1) pair_store)) 2
            = Some (p2\<lparr> social := (social p2)\<lparr> isLeader := True \<rparr> \<rparr>)
      \<and> map_of (groups (updateGroup demo_host 1 (removeFromGroup (IdNum 1) pair_store))) 1 = None)
   \<and> group_summary orphan_store = [(1, IdNum 5, [IdNum 5, IdNum 2])]
   \<and> resolvedGroup orphan_store (IdNum 5) = None
   \<and> removeFromGroup (IdNum 5) orphan_store = orphan_store"
proof -
  obtain p1 p2 where s: "pair_store =
       \<lparr> guests = [(1, p1), (2, p2)],
         groups = [(1, \<lparr> group_id = 1, leaderId = IdNum 1, members = [IdNum 1, IdNum 2],
                         formation = ''follow'', targetRide = None, group_createdTick = 100 \<rparr>)],
         nextGroupId = 2, drawn = 48 \<rparr>"
    and p: "social p1 = \<lparr> groupId = Some 1, isLeader = True, friendIds = [], recentInteractions = 0 \<rparr>"
      "social p2 = \<lparr> groupId = Some 1, isLeader = False, friendIds = [], recentInteractions = 0 \<rparr>"
    using pair_store_shape by blast
  let ?grp = "\<lparr> group_id = 1, leaderId = IdNum 1, members = [IdNum 1, IdNum 2],
                formation = ''follow'', targetRide = None, group_createdTick = 100 \<rparr>"
  have g1: "map_of (guests pair_store) (prop_key (IdNum 1)) = Some p1" by (simp add: s)
  have g2: "map_of (guests pair_store) (prop_key (IdNum 2)) = Some p2" by (simp add: s)
  have rg: "resolvedGroup pair_store (IdNum 1) = Some (1, ?grp)"
    by (simp add: s p resolvedGroup_def)
  have ld: "leaderId ?grp = IdNum 1" by simp
  have ms: "members ?grp = [IdNum 1, IdNum 2]" by simp
  note T = C2_leader_removal[where st = pair_store and guestId = "IdNum 1" and g = 1
      and grp = ?grp and other = "IdNum 2" and od = p2 and h = demo_host]
  have a: "map_of (groups (removeFromGroup (IdNum 1) pair_store)) 1
            = Some (?grp\<lparr> members := [IdNum 2], leaderId := IdNum 2 \<rparr>)
      \<and> map_of (guests (removeFromGroup (IdNum 1) pair_store)) (prop_key (IdNum 2))
            = Some (p2\<lparr> social := (social p2)\<lparr> isLeader := True \<rparr> \<rparr>)
      \<and> map_of (groups (updateGroup demo_host 1 (removeFromGroup (IdNum 1) pair_store))) 1 = None"
    using T rg g2 ms by simp
  obtain q2 where o: "orphan_store =
       \<lparr> guests = [(2, q2)],
         groups = [(1, \<lparr> group_id = 1, leaderId = IdNum 5, members = [IdNum 5, IdNum 2],
                         formation = ''follow'', targetRide = None, group_createdTick = 100 \<rparr>)],
         nextGroupId = 2, drawn = 24 \<rparr>"
    using orphan_store_shape by blast
  have og: "group_summary orphan_store = [(1, IdNum 5, [IdNum 5, IdNum 2])]"
    by (simp add: o group_summary_def)
  have orn: "resolvedGroup orphan_store (IdNum 5) = None" by (simp add: o resolvedGroup_def)
  from C2_leader_removal[where st = orphan_store and guestId = "IdNum 5"] orn
  have b: "removeFromGroup (IdNum 5) orphan_store = orphan_store" by blast
  have "\<exists>p1 p2 grp. map_of (guests pair_store) 1 = Some p1 \<and> map_of (guests pair_store) 2 = Some p2
      \<and> resolvedGroup pair_store (IdNum 1) = Some (1, grp)
      \<and> leaderId grp = IdNum 1 \<and> members grp = [IdNum 1, IdNum 2]
      \<and> map_of (groups (removeFromGroup (IdNum 1) pair_store)) 1
            = Some (grp\<lparr> members := [IdNum 2], leaderId := IdNum 2 \<rparr>)
      \<and> map_of (guests (removeFromGroup (IdNum 1) pair_store)) 2
            = Some (p2\<lparr> social := (social p2)\<lparr> isLeader := True \<rparr> \<rparr>)
      \<and> map_of (groups (updateGroup demo_host 1 (removeFromGroup (IdNum 1) pair_store))) 1 = None"
    using g1 g2 rg ld ms a by (intro exI[of _ p1] exI[of _ p2] exI[of _ ?grp]) simp
  with og orn b show ?thesis by blast
qed

section \<open>Reconciliation and authority\<close>

text \<open>
  Claim C10. When the host's enumeration of the live guests throws during the
  reconciliation pass, \<open>cleanupOldData\<close> returns at once: the profile table and the
  group table are as they were.
\<close>

theorem C10_cleanup_unchanged_on_host_failure:
  "allGuests h = None \<Longrightarrow> cleanupOldData h st = st"
  by (simp add: cleanupOldData_def)

text \<open>
  C10 at the store of guests 1 and 2; with a host that reports guest 2 alone the pass
  does remove the profile of guest 1.
\<close>

theorem C10_cleanup_unchanged_on_host_failure_witness:
  "allGuests throwing_host = None
   \<and> cleanupOldData throwing_host pair_store = pair_store
   \<and> map fst (guests pair_store) = [1, 2]
   \<and> map fst (guests (cleanupOldData guest2_host pair_store)) = [2]"
proof -
  obtain p1 p2 where s: "pair_store =
       \<lparr> guests = [(1, p1), (2, p2)],
         groups = [(1, \<lparr> group_id = 1, leaderId = IdNum 1, members = [IdNum 1, IdNum 2],
                         formation = ''follow'', targetRide = None, group_createdTick = 100 \<rparr>)],
         nextGroupId = 2, drawn = 48 \<rparr>"
    and p: "social p1 = \<lparr> groupId = Some 1, isLeader = True, friendIds = [], recentInteractions = 0 \<rparr>"
      "social p2 = \<lparr> groupId = Some 1, isLeader = False, friendIds = [], recentInteractions = 0 \<rparr>"
    using pair_store_shape by blast
  have a: "allGuests throwing_host = None" by (simp add: throwing_host_def)
  have b: "map fst (guests pair_store) = [1, 2]" by (simp add: s)
  have c: "map fst (guests (cleanupOldData guest2_host pair_store)) = [2]"
    unfolding s
    by (simp add: p removeGuestData_def cleanupOldData_def guest2_host_def demo_host_def
        demo_guest_def validGuestIds_def)
  from C10_cleanup_unchanged_on_host_failure[OF a, of pair_store] a b c show ?thesis by simp
qed

text \<open>
  Claim C3, as the code has it. When the participant is not authoritative, the gated
  operations \<open>updateMood\<close>, \<open>applyMoodEffects\<close>, \<open>updateBehavior\<close>,
  \<open>executeBehavior\<close>, \<open>updateGroups\<close>, \<open>onGuestGenerated\<close> and \<open>onTick\<close> return
  with the store, the host agent and the scheduler as they were, and raise nothing.
  The store's own operations carry no authority check.
\<close>

theorem C3_gated_operations_are_silent:
  "\<not> canModifyGameState h \<Longrightarrow>
     updateMood cfg h guestId g st = (g, st)
     \<and> applyMoodEffects cfg h g data = g
     \<and> updateBehavior cfg h guestId g st = (g, st)
     \<and> executeBehavior cfg h guestId g st = (g, st)
     \<and> updateGroups h st = st
     \<and> onGuestGenerated h guestId st = (None, st)
     \<and> onTick cfg h pl = (cfg, pl, [])"
  by (simp add: updateMood_def applyMoodEffects_def updateBehavior_def executeBehavior_def
      updateGroups_def onGuestGenerated_def onTick_def)

text \<open>
  Claim C3 as stated fails: on a multiplayer client \<open>getGuestData\<close> creates the missing
  profile of guest 1 and takes 24 values from the random source.
\<close>

theorem C3_store_get_writes_without_authority:
  "\<not> canModifyGameState client_host
   \<and> guests empty_state = []
   \<and> map fst (guests (snd (getGuestData client_host (IdNum 1) empty_state))) = [1]
   \<and> drawn (snd (getGuestData client_host (IdNum 1) empty_state)) = 24"
  by (simp add: client_host_def canModifyGameState_def isServer_def getMode_def store_eval)

text \<open>C3 on a multiplayer client, at the store of guests 1 and 2.\<close>

theorem C3_gated_operations_are_silent_witness:
  "\<not> canModifyGameState client_host
   \<and> updateMood CONFIG client_host (IdNum 1) demo_guest pair_store = (demo_guest, pair_store)
   \<and> updateBehavior CONFIG client_host (IdNum 1) demo_guest pair_store = (demo_guest, pair_store)
   \<and> updateGroups client_host pair_store = pair_store
   \<and> onTick CONFIG client_host demo_plugin = (CONFIG, demo_plugin, [])"
proof -
  have a: "\<not> canModifyGameState client_host"
    by (simp add: client_host_def canModifyGameState_def isServer_def getMode_def demo_host_def)
  from C3_gated_operations_are_silent[OF a, of CONFIG "IdNum 1" demo_guest pair_store
      scenario_profile demo_plugin] a
  show ?thesis by simp
qed

section \<open>The ride memory\<close>

lemma getGuestData_present:
  "map_of (guests st) (prop_key guestId) = Some data \<Longrightarrow> getGuestData h guestId st = (data, st)"
  by (simp add: getGuestData_def)

lemma ride_summary_first:
  assumes "t' = fl (0 + sat)" and "a = fl (t' / of_nat (0 + 1))"
    and "worst' = (if a < fl (3 / 10) then Some 7 else None)"
  shows "ride_summary (recordRideExperience demo_host (IdNum 1) 7 sat empty_state) (IdNum 1) 7
     = Some (Some \<lparr> timesRidden = 1, totalSatisfaction = t' \<rparr>, None, worst')"
  unfolding assms by (simp add: recordRideExperience_def store_eval ride_summary_def)

lemma ride_summary_next:
  assumes "ride_summary st guestId rideId
             = Some (Some \<lparr> timesRidden = n, totalSatisfaction = t \<rparr>, fav, worst)"
    and "n' = n + 1" and "t' = fl (t + sat)" and "a = fl (t' / of_nat (n + 1))"
    and "fav' = (if a > fl (8 / 10) \<and> n + 1 \<ge> 2 then Some rideId else fav)"
    and "worst' = (if a < fl (3 / 10) then Some rideId else worst)"
  shows "ride_summary (recordRideExperience h guestId rideId sat st) guestId rideId
     = Some (Some \<lparr> timesRidden = n', totalSatisfaction = t' \<rparr>, fav', worst')"
  using assms(1) unfolding assms(2-)
  by (auto simp: ride_summary_def recordRideExperience_def getGuestData_def Let_def update_conv')

lemma fl_08: "fl (8 / 10) = of_int 7205759403792794 / 2 ^ 53"
  by (rule fl_cert) simp_all

lemma fl_03: "fl (3 / 10) = of_int 5404319552844595 / 2 ^ 54"
  by (rule fl_cert) simp_all

lemma two_rides_08:
  "ride_summary (recordRideExperience demo_host (IdNum 1) 7 (fl (8 / 10))
                  (recordRideExperience demo_host (IdNum 1) 7 (fl (8 / 10)) empty_state)) (IdNum 1) 7
     = Some (Some \<lparr> timesRidden = 2, totalSatisfaction = of_int 7205759403792794 / 2 ^ 52 \<rparr>,
             None, None)"
proof -
  let ?d = "of_int 7205759403792794 / 2 ^ 53 :: rat"
  let ?st1 = "recordRideExperience demo_host (IdNum 1) 7 ?d empty_state"
  have 1: "ride_summary ?st1 (IdNum 1) 7
             = Some (Some \<lparr> timesRidden = 1, totalSatisfaction = ?d \<rparr>, None, None)"
  proof (rule ride_summary_first[where a = ?d])
    show "?d = fl (0 + ?d)" by (rule fl_cert[symmetric]) simp_all
    show "?d = fl (?d / of_nat (0 + 1))" by (rule fl_cert[symmetric]) simp_all
    show "None = (if ?d < fl (3 / 10) then Some 7 else None)" unfolding fl_03 by simp
  qed
  have 2: "ride_summary (recordRideExperience demo_host (IdNum 1) 7 ?d ?st1) (IdNum 1) 7
     = Some (Some \<lparr> timesRidden = 2, totalSatisfaction = of_int 7205759403792794 / 2 ^ 52 \<rparr>,
             None, None)"
  proof (rule ride_summary_next[OF 1, where a = ?d])
    show "(2::nat) = 1 + 1" by simp
    show "of_int 7205759403792794 / 2 ^ 52 = fl (?d + ?d)" by (rule fl_cert[symmetric]) simp_all
    show "?d = fl (of_int 7205759403792794 / 2 ^ 52 / of_nat (1 + 1))"
      by (rule fl_cert[symmetric]) simp_all
    show "None = (if fl (8 / 10) < ?d \<and> 2 \<le> (1::nat) + 1 then Some 7 else None)"
      unfolding fl_08 by simp
    show "None = (if ?d < fl (3 / 10) then Some 7 else None)" unfolding fl_03 by simp
  qed
  show ?thesis unfolding fl_08 by (rule 2)
qed

text \<open>
  Claim C5, as the program computes it. Recording a ride experience increments that
  ride's times-ridden count by 1 and replaces its cumulative total by the binary64 sum of
  the total and the given satisfaction. The average is the binary64 quotient of the stored
  total by the count. If it is strictly greater than the double 0.8 and the ride has been
  ridden at least twice, the ride becomes the agent's favorite, and if it is strictly
  below the double 0.3 it becomes the agent's worst experience; each overwrites the one
  reference the profile has for it, and is otherwise left as it was. The double 0.8 lies
  above 0.8 and the double 0.3 below 0.3.
\<close>

theorem C5_recordRideExperience:
  assumes get: "getGuestData h guestId st = (data, st1)"
    and old: "r = (case ridesRidden (memory data) rideId of
                     None \<Rightarrow> \<lparr> timesRidden = 0, totalSatisfaction = 0 \<rparr> | Some x \<Rightarrow> x)"
  shows "(\<exists>p. map_of (guests (recordRideExperience h guestId rideId satisfaction st))
                (prop_key guestId) = Some p
     \<and> ridesRidden (memory p) rideId
         = Some \<lparr> timesRidden = timesRidden r + 1,
                   totalSatisfaction = fl (totalSatisfaction r + satisfaction) \<rparr>
     \<and> favoriteRide (memory p)
         = (if fl (fl (totalSatisfaction r + satisfaction) / of_nat (timesRidden r + 1)) > fl (8 / 10)
               \<and> timesRidden r + 1 \<ge> 2
            then Some rideId else favoriteRide (memory data))
     \<and> worstExperience (memory p)
         = (if fl (fl (totalSatisfaction r + satisfaction) / of_nat (timesRidden r + 1)) < fl (3 / 10)
            then Some rideId else worstExperience (memory data)))
     \<and> 8 / 10 < fl (8 / 10) \<and> fl (3 / 10) < 3 / 10"
proof -
  have "(8 / 10 :: rat) < fl (8 / 10)" "fl (3 / 10) < (3 / 10 :: rat)"
    unfolding fl_08 fl_03 by simp_all
  moreover have "\<exists>p. map_of (guests (recordRideExperience h guestId rideId satisfaction st))
                (prop_key guestId) = Some p
     \<and> ridesRidden (memory p) rideId
         = Some \<lparr> timesRidden = timesRidden r + 1,
                   totalSatisfaction = fl (totalSatisfaction r + satisfaction) \<rparr>
     \<and> favoriteRide (memory p)
         = (if fl (fl (totalSatisfaction r + satisfaction) / of_nat (timesRidden r + 1)) > fl (8 / 10)
               \<and> timesRidden r + 1 \<ge> 2
            then Some rideId else favoriteRide (memory data))
     \<and> worstExperience (memory p)
         = (if fl (fl (totalSatisfaction r + satisfaction) / of_nat (timesRidden r + 1)) < fl (3 / 10)
            then Some rideId else worstExperience (memory data))"
    using get old
    by (simp add: recordRideExperience_def Let_def update_conv' split: option.splits)
  ultimately show ?thesis by blast
qed

text \<open>
  Claim C5 as stated fails at an average of exactly 0.8: after two rides of
  satisfaction 0.8 (the double) the ride has been ridden twice, its total is the double
  1.6, its average, computed or exact, is the double 0.8, which is at least 0.8, and there
  is no favorite.
\<close>

theorem C5_average_of_exactly_08_sets_no_favorite:
  "ride_summary (recordRideExperience demo_host (IdNum 1) 7 (fl (8 / 10))
                  (recordRideExperience demo_host (IdNum 1) 7 (fl (8 / 10)) empty_state)) (IdNum 1) 7
     = Some (Some \<lparr> timesRidden = 2, totalSatisfaction = of_int 7205759403792794 / 2 ^ 52 \<rparr>,
             None, None)
   \<and> of_int 7205759403792794 / 2 ^ 52 = fl (8 / 10) + fl (8 / 10)
   \<and> fl (of_int 7205759403792794 / 2 ^ 52 / 2) = fl (8 / 10)
   \<and> of_int 7205759403792794 / 2 ^ 52 / 2 \<ge> (8 / 10 :: rat)"
proof -
  have "fl (of_int 7205759403792794 / 2 ^ 52 / 2) = of_int 7205759403792794 / 2 ^ 53"
    by (rule fl_cert) simp_all
  then show ?thesis using two_rides_08 unfolding fl_08 by simp
qed

text \<open>
  C5 at a third ride of satisfaction 0.8 after two: the total becomes the double
  2.4000000000000004, the average the double 0.8000000000000002, which exceeds the double
  0.8, and the ride becomes the favorite.
\<close>

theorem C5_recordRideExperience_witness:
  "\<exists>p. map_of (guests (recordRideExperience demo_host (IdNum 1) 7 (fl (8 / 10))
                 (recordRideExperience demo_host (IdNum 1) 7 (fl (8 / 10))
                   (recordRideExperience demo_host (IdNum 1) 7 (fl (8 / 10)) empty_state)))) 1 = Some p
      \<and> ridesRidden (memory p) 7
           = Some \<lparr> timesRidden = 3, totalSatisfaction = of_int 5404319552844596 / 2 ^ 51 \<rparr>
      \<and> favoriteRide (memory p) = Some 7 \<and> worstExperience (memory p) = None"
proof -
  let ?d = "of_int 7205759403792794 / 2 ^ 53 :: rat"
  let ?st2 = "recordRideExperience demo_host (IdNum 1) 7 (fl (8 / 10))
                (recordRideExperience demo_host (IdNum 1) 7 (fl (8 / 10)) empty_state)"
  let ?r = "\<lparr> timesRidden = 2, totalSatisfaction = of_int 7205759403792794 / 2 ^ 52 \<rparr>"
  from two_rides_08 obtain d2 where d2: "map_of (guests ?st2) (prop_key (IdNum 1)) = Some d2"
    and m2: "ridesRidden (memory d2) 7 = Some ?r"
      "favoriteRide (memory d2) = None" "worstExperience (memory d2) = None"
    by (auto simp: ride_summary_def)
  have g: "getGuestData demo_host (IdNum 1) ?st2 = (d2, ?st2)"
    by (rule getGuestData_present[OF d2])
  have r: "?r = (case ridesRidden (memory d2) 7 of
                  None \<Rightarrow> \<lparr> timesRidden = 0, totalSatisfaction = 0 \<rparr> | Some x \<Rightarrow> x)"
    by (simp add: m2)
  have t3: "fl (of_int 7205759403792794 / 2 ^ 52 + ?d) = of_int 5404319552844596 / 2 ^ 51"
    by (rule fl_cert) simp_all
  have a3: "fl (of_int 5404319552844596 / 2 ^ 51 / of_nat (2 + 1)) = of_int 7205759403792795 / 2 ^ 53"
    by (rule fl_cert) simp_all
  have gt: "?d < (of_int 7205759403792795 / 2 ^ 53 :: rat)" by simp
  have lt: "\<not> (of_int 7205759403792795 / 2 ^ 53 :: rat) < of_int 5404319552844595 / 2 ^ 54" by simp
  from C5_recordRideExperience[OF g r, where satisfaction = "fl (8 / 10)"]
  obtain p where p: "map_of (guests (recordRideExperience demo_host (IdNum 1) 7 (fl (8 / 10)) ?st2))
                       (prop_key (IdNum 1)) = Some p"
    "ridesRidden (memory p) 7
         = Some \<lparr> timesRidden = timesRidden ?r + 1,
                   totalSatisfaction = fl (totalSatisfaction ?r + fl (8 / 10)) \<rparr>"
    "favoriteRide (memory p)
         = (if fl (fl (totalSatisfaction ?r + fl (8 / 10)) / of_nat (timesRidden ?r + 1)) > fl (8 / 10)
               \<and> timesRidden ?r + 1 \<ge> 2
            then Some 7 else favoriteRide (memory d2))"
    "worstExperience (memory p)
         = (if fl (fl (totalSatisfaction ?r + fl (8 / 10)) / of_nat (timesRidden ?r + 1)) < fl (3 / 10)
            then Some 7 else worstExperience (memory d2))"
    by blast
  have 1: "ridesRidden (memory p) 7
           = Some \<lparr> timesRidden = 3, totalSatisfaction = of_int 5404319552844596 / 2 ^ 51 \<rparr>"
    using p(2) unfolding ride_memory.select_convs fl_08 t3 by simp
  have 2: "favoriteRide (memory p) = Some 7"
    using p(3) gt unfolding ride_memory.select_convs fl_08 t3 a3 by simp
  have 3: "worstExperience (memory p) = None"
    using p(4) lt unfolding ride_memory.select_convs fl_08 fl_03 t3 a3 m2 by simp
  from p(1) 1 2 3 show ?thesis by auto
qed

section \<open>Mood hysteresis\<close>

lemma countNearbyGuests_happinessTarget:
  "countNearbyGuests h (g\<lparr> happinessTarget := x \<rparr>) = countNearbyGuests h g"
  by (simp add: countNearbyGuests_def)

lemma calculateMood_guest_cong:
  assumes "happiness g = happiness g'" "hunger g = hunger g'" "thirst g = thirst g'"
    "toilet g = toilet g'" "energy g = energy g'" "nausea g = nausea g'"
    "countNearbyGuests h g = countNearbyGuests h g'"
  shows "calculateMood cfg h g data = calculateMood cfg h g' data"
  unfolding calculateMood_def assms ..

lemma calculateMood_happinessTarget:
  "calculateMood cfg h (g\<lparr> happinessTarget := x \<rparr>) data = calculateMood cfg h g data"
  by (rule calculateMood_guest_cong) (simp_all add: countNearbyGuests_happinessTarget)

lemma calculateMood_lastChange:
  "lastChange (calculateMood cfg h g data) = lastChange (mood data)"
  unfolding calculateMood_def Let_def
  by (simp only: if_distrib[of lastChange] mood.select_convs if_cancel cong del: if_weak_cong)

lemma calculateMood_traits_current:
  assumes "traits data = traits data'"
  shows "mood_current (calculateMood cfg h g data) = mood_current (calculateMood cfg h g data')"
  unfolding calculateMood_def Let_def trait_gt_def assms
  by (simp only: if_distrib[of mood_current] mood.select_convs cong del: if_weak_cong)

lemma calculateMood_traits_intensity:
  assumes "traits data = traits data'"
  shows "intensity (calculateMood cfg h g data) = intensity (calculateMood cfg h g data')"
  unfolding calculateMood_def Let_def trait_gt_def assms
  by (simp only: if_distrib[of intensity] mood.select_convs cong del: if_weak_cong)


lemma calculateMood_applyMoodEffects:
  "calculateMood cfg h (applyMoodEffects cfg h g d) data = calculateMood cfg h g data"
  by (simp add: applyMoodEffects_def Let_def calculateMood_happinessTarget)

lemma getGuestData_stored:
  "getGuestData h guestId st = (data, st1) \<Longrightarrow> map_of (guests st1) (prop_key guestId) = Some data"
  by (auto simp: getGuestData_def update_conv' Let_def split: option.splits prod.splits)

text \<open>
  Claim C7. On an authoritative participant a recomputed mood replaces the stored mood
  exactly when its state differs from the stored state or its intensity differs from
  the stored intensity by more than 10, and then the last-change tick is set and the
  mood-change counter incremented; otherwise the profile, and with it the stored mood,
  its last-change tick and the counter, and the host agent with its happiness target are
  left as they were. Evaluating the mood again with the same inputs changes nothing.
\<close>

theorem C7_mood_hysteresis:
  assumes auth: "canModifyGameState h"
    and get: "getGuestData h guestId st = (data, st1)"
  shows
    "(mood_current (calculateMood cfg h g data) \<noteq> mood_current (mood data)
        \<or> \<bar>intensity (calculateMood cfg h g data) - intensity (mood data)\<bar> > 10
      \<longrightarrow> map_of (guests (snd (updateMood cfg h guestId g st))) (prop_key guestId)
            = Some (data\<lparr> mood := (calculateMood cfg h g data)\<lparr> lastChange := ticksElapsed h \<rparr>,
                          stats := (stats data)\<lparr> moodChanges := moodChanges (stats data) + 1 \<rparr> \<rparr>))
     \<and> (\<not> (mood_current (calculateMood cfg h g data) \<noteq> mood_current (mood data)
            \<or> \<bar>intensity (calculateMood cfg h g data) - intensity (mood data)\<bar> > 10)
      \<longrightarrow> updateMood cfg h guestId g st = (g, st1)
          \<and> map_of (guests st1) (prop_key guestId) = Some data)
     \<and> (hasGuestData guestId st \<longrightarrow> st1 = st)
     \<and> updateMood cfg h guestId (fst (updateMood cfg h guestId g st))
           (snd (updateMood cfg h guestId g st)) = updateMood cfg h guestId g st"
proof -
  define new where "new = calculateMood cfg h g data"
  define ch where "ch \<longleftrightarrow> mood_current new \<noteq> mood_current (mood data)
               \<or> \<bar>intensity new - intensity (mood data)\<bar> > 10"
  define data' where "data' = data\<lparr> mood := new\<lparr> lastChange := ticksElapsed h \<rparr>,
                       stats := (stats data)\<lparr> moodChanges := moodChanges (stats data) + 1 \<rparr> \<rparr>"
  define st2 where "st2 = st1\<lparr> guests := AList.update (prop_key guestId) data' (guests st1) \<rparr>"
  define g' where "g' = applyMoodEffects cfg h g data'"
  have stored: "map_of (guests st1) (prop_key guestId) = Some data"
    by (rule getGuestData_stored[OF get])
  have same: "st1 = st" if "hasGuestData guestId st"
    using that get by (auto simp: hasGuestData_def getGuestData_def)
  have changed: "updateMood cfg h guestId g st = (g', st2)" if ch
    using auth get that
    by (simp add: updateMood_def Let_def new_def ch_def data'_def st2_def g'_def)
  have unchanged: "updateMood cfg h guestId g st = (g, st1)" if "\<not> ch"
    using auth get that by (simp add: updateMood_def Let_def new_def ch_def)
  have again_unchanged: "updateMood cfg h guestId g st1 = (g, st1)" if "\<not> ch"
    using auth getGuestData_present[OF stored, of h] that
    by (simp add: updateMood_def Let_def new_def ch_def)
  have again_changed: "updateMood cfg h guestId g' st2 = (g', st2)"
  proof -
    have "map_of (guests st2) (prop_key guestId) = Some data'"
      by (simp add: st2_def update_conv')
    note get2 = getGuestData_present[OF this, of h]
    have tr: "traits data' = traits data" by (simp add: data'_def)
    have m: "calculateMood cfg h g' data' = calculateMood cfg h g data'"
      unfolding g'_def by (rule calculateMood_applyMoodEffects)
    have cur: "mood_current (calculateMood cfg h g' data') = mood_current (mood data')"
      unfolding m calculateMood_traits_current[OF tr] by (simp add: data'_def new_def)
    have int: "intensity (calculateMood cfg h g' data') = intensity (mood data')"
      unfolding m calculateMood_traits_intensity[OF tr] by (simp add: data'_def new_def)
    show ?thesis
      using auth get2 cur int by (simp add: updateMood_def Let_def)
  qed
  have idem: "updateMood cfg h guestId (fst (updateMood cfg h guestId g st))
           (snd (updateMood cfg h guestId g st)) = updateMood cfg h guestId g st"
  proof (cases ch)
    case True
    show ?thesis unfolding changed[OF True] using again_changed by simp
  next
    case False
    show ?thesis unfolding unchanged[OF False] using again_unchanged[OF False] by simp
  qed
  have c1: "map_of (guests (snd (updateMood cfg h guestId g st))) (prop_key guestId) = Some data'"
    if ch
    unfolding changed[OF that] by (simp add: st2_def update_conv')
  from c1 unchanged stored same idem show ?thesis
    unfolding ch_def data'_def new_def by blast
qed


text \<open>
  C7 at the stored mood Content/128: a computed Content/150 replaces it, a computed
  Content/130 does not.
\<close>

theorem C7_mood_hysteresis_witness:
  "canModifyGameState demo_host
   \<and> mood scenario_profile = \<lparr> mood_current = CONTENT, intensity = 128, lastChange = 100 \<rparr>
   \<and> calculateMood CONFIG demo_host demo_guest scenario_profile
        = \<lparr> mood_current = CONTENT, intensity = 150, lastChange = 100 \<rparr>
   \<and> (\<exists>p. map_of (guests (snd (updateMood CONFIG demo_host (IdNum 1) demo_guest scenario_store))) 1
            = Some p
        \<and> mood p = \<lparr> mood_current = CONTENT, intensity = 150, lastChange = 100 \<rparr>
        \<and> moodChanges (stats p) = 1)
   \<and> calculateMood CONFIG demo_host (demo_guest\<lparr> happiness := 130 \<rparr>) scenario_profile
        = \<lparr> mood_current = CONTENT, intensity = 130, lastChange = 100 \<rparr>
   \<and> updateMood CONFIG demo_host (IdNum 1) (demo_guest\<lparr> happiness := 130 \<rparr>) scenario_store
        = (demo_guest\<lparr> happiness := 130 \<rparr>, scenario_store)"
proof -
  have auth: "canModifyGameState demo_host"
    by (simp add: canModifyGameState_def isServer_def getMode_def demo_host_def)
  have stored: "map_of (guests scenario_store) (prop_key (IdNum 1)) = Some scenario_profile"
    by (simp add: scenario_store_def)
  note get = getGuestData_present[OF stored, of demo_host]
  have m0: "mood scenario_profile = \<lparr> mood_current = CONTENT, intensity = 128, lastChange = 100 \<rparr>"
    and s0: "moodChanges (stats scenario_profile) = 0"
    by (simp_all add: scenario_profile_def createNewPersonality_def calculateModifiers_def
        demo_host_def Let_def split: prod.splits)
  have tg: "\<not> trait_gt scenario_profile SOCIAL 150" "\<not> trait_gt scenario_profile NERVOUS 150"
    by (simp_all add: trait_gt_def scenario_profile_def)
  have m1: "calculateMood CONFIG demo_host demo_guest scenario_profile
        = \<lparr> mood_current = CONTENT, intensity = 150, lastChange = 100 \<rparr>"
    by (simp add: calculateMood_def tg m0 demo_guest_def CONFIG_def)
  have m2: "calculateMood CONFIG demo_host (demo_guest\<lparr> happiness := 130 \<rparr>) scenario_profile
        = \<lparr> mood_current = CONTENT, intensity = 130, lastChange = 100 \<rparr>"
    by (simp add: calculateMood_def tg m0 demo_guest_def CONFIG_def)
  have tk: "ticksElapsed demo_host = 100" by (simp add: demo_host_def)
  from C7_mood_hysteresis[OF auth get, of CONFIG demo_guest] m0 m1 s0 tk
  have a: "\<exists>p. map_of (guests (snd (updateMood CONFIG demo_host (IdNum 1) demo_guest scenario_store))) 1
            = Some p
        \<and> mood p = \<lparr> mood_current = CONTENT, intensity = 150, lastChange = 100 \<rparr>
        \<and> moodChanges (stats p) = 1"
    by simp
  from C7_mood_hysteresis[OF auth get, of CONFIG "demo_guest\<lparr> happiness := 130 \<rparr>"] m0 m2
  have b: "updateMood CONFIG demo_host (IdNum 1) (demo_guest\<lparr> happiness := 130 \<rparr>) scenario_store
        = (demo_guest\<lparr> happiness := 130 \<rparr>, scenario_store)"
    by simp
  from auth m0 m1 m2 a b show ?thesis by blast
qed

section \<open>The scheduler pass\<close>

lemma applyMoodEffects_ident:
  "gid (applyMoodEffects cfg h g d) = gid g \<and> is_guest (applyMoodEffects cfg h g d) = is_guest g"
  by (simp add: applyMoodEffects_def Let_def)

lemma updateMood_ident:
  "gid (fst (updateMood cfg h i g st)) = gid g \<and> is_guest (fst (updateMood cfg h i g st)) = is_guest g"
  by (simp add: updateMood_def Let_def applyMoodEffects_ident split: prod.splits)

lemma executeBehavior_ident:
  "gid (fst (executeBehavior cfg h i g st)) = gid g
   \<and> is_guest (fst (executeBehavior cfg h i g st)) = is_guest g"
  by (simp add: executeBehavior_def split: option.splits behavior_type.splits)

lemma updateBehavior_ident:
  "gid (fst (updateBehavior cfg h i g st)) = gid g
   \<and> is_guest (fst (updateBehavior cfg h i g st)) = is_guest g"
  by (simp add: updateBehavior_def Let_def executeBehavior_ident split: prod.splits)

lemma processGuest_ident:
  "gid (fst (processGuest cfg h g pl)) = gid g \<and> is_guest (fst (processGuest cfg h g pl)) = is_guest g"
proof (cases "gid g")
  case None
  then show ?thesis by (simp add: processGuest_def)
next
  case (Some i)
  define st0 where "st0 = store (if \<not> hasGuestData i (store pl) then
                    pl\<lparr> store := snd (getGuestData h i (store pl)),
                        statistics := (statistics pl)\<lparr> personalitiesCreated :=
                                        personalitiesCreated (statistics pl) + 1 \<rparr> \<rparr>
                  else pl)"
  obtain g1 st1 where m: "updateMood cfg h i g st0 = (g1, st1)"
    by (cases "updateMood cfg h i g st0")
  obtain g2 st2 where b: "updateBehavior cfg h i g1 st1 = (g2, st2)"
    by (cases "updateBehavior cfg h i g1 st1")
  have e: "fst (processGuest cfg h g pl) = g2"
    using Some m b by (simp add: processGuest_def Let_def st0_def split: prod.splits)
  have "gid g1 = gid g \<and> is_guest g1 = is_guest g"
    using updateMood_ident[of cfg h i g st0] m by simp
  moreover have "gid g2 = gid g1 \<and> is_guest g2 = is_guest g1"
    using updateBehavior_ident[of cfg h i g1 st1] b by simp
  ultimately show ?thesis using e by simp
qed

lemma processGuest_frame:
  "guestIndex (snd (processGuest cfg h g pl)) = guestIndex pl
   \<and> guestsProcessed (statistics (snd (processGuest cfg h g pl))) = guestsProcessed (statistics pl)
   \<and> clock (snd (processGuest cfg h g pl)) = clock pl
   \<and> frameStartTime (snd (processGuest cfg h g pl)) = frameStartTime pl"
  by (simp add: processGuest_def Let_def split: option.splits prod.splits)


lemma processOne_valid:
  assumes ne: "gs \<noteq> []" and va: "list_all valid_entry gs"
  shows "\<exists>gs' pl'. processOne cfg h gs pl = (gs', pl', True)
           \<and> length gs' = length gs \<and> list_all valid_entry gs'
           \<and> guestIndex pl' = (guestIndex pl + 1) mod length gs
           \<and> guestsProcessed (statistics pl') = guestsProcessed (statistics pl) + 1
           \<and> clock pl' = clock pl \<and> frameStartTime pl' = frameStartTime pl"
proof -
  define i where "i = guestIndex pl mod length gs"
  define pl1 where "pl1 = pl\<lparr> guestIndex := (guestIndex pl + 1) mod length gs \<rparr>"
  have il: "i < length gs" using ne by (simp add: i_def)
  then have "valid_entry (gs ! i)" using va by (simp add: list_all_length)
  then obtain g where g: "gs ! i = Some g" "is_guest g" "gid g \<noteq> None"
    by (auto simp: valid_entry_def split: option.splits)
  obtain g' pl2 where p: "processGuest cfg h g pl1 = (g', pl2)"
    by (cases "processGuest cfg h g pl1")
  have id: "gid g' = gid g \<and> is_guest g' = is_guest g"
    using processGuest_ident[of cfg h g pl1] p by simp
  have fr: "guestIndex pl2 = guestIndex pl1
     \<and> guestsProcessed (statistics pl2) = guestsProcessed (statistics pl1)
     \<and> clock pl2 = clock pl1 \<and> frameStartTime pl2 = frameStartTime pl1"
    using processGuest_frame[of cfg h g pl1] p by simp
  have one: "processOne cfg h gs pl =
      (gs[i := Some g'],
       pl2\<lparr> statistics := (statistics pl2)\<lparr> guestsProcessed :=
                                guestsProcessed (statistics pl2) + 1 \<rparr> \<rparr>, True)"
    using ne g p[unfolded pl1_def] by (simp add: processOne_def Let_def i_def[symmetric])
  have v': "list_all valid_entry (gs[i := Some g'])"
  proof -
    have "valid_entry (Some g')" using id g by (simp add: valid_entry_def)
    moreover have "set (gs[i := Some g']) \<subseteq> insert (Some g') (set gs)"
      by (rule set_update_subset_insert)
    ultimately show ?thesis using va by (auto simp: list_all_iff)
  qed
  show ?thesis
    unfolding one using v' fr by (simp add: pl1_def)
qed

lemma processLoop_count:
  assumes budget: "\<forall>k. \<not> frameBudgetMs cfg \<le> of_int (now h k - t0)"
  shows "gs \<noteq> [] \<Longrightarrow> list_all valid_entry gs \<Longrightarrow> frameStartTime pl = t0
         \<Longrightarrow> guestIndex pl < length gs \<Longrightarrow>
         \<exists>gs' pl'. processLoop cfg h gs processed pl =
             (gs', processed + 2 * int (nat ((maxGuestsPerTick cfg - processed + 1) div 2)), pl')
           \<and> guestsProcessed (statistics pl')
               = guestsProcessed (statistics pl) + nat ((maxGuestsPerTick cfg - processed + 1) div 2)
           \<and> guestIndex pl'
               = (guestIndex pl + nat ((maxGuestsPerTick cfg - processed + 1) div 2)) mod length gs"
proof (induction "nat (maxGuestsPerTick cfg - processed)" arbitrary: gs processed pl
    rule: less_induct)
  case less
  let ?cap = "maxGuestsPerTick cfg"
  show ?case
  proof (cases "processed < ?cap")
    case False
    then have k: "nat ((?cap - processed + 1) div 2) = 0" by simp
    have l: "processLoop cfg h gs processed pl = (gs, processed, pl)"
      using False by (subst processLoop.simps) simp
    show ?thesis
      unfolding k l using less.prems(4) by simp
  next
    case True
    define pl1 where "pl1 = pl\<lparr> clock := Suc (clock pl) \<rparr>"
    have ob: "isOverBudget cfg h pl = (False, pl1)"
      using budget less.prems(3) by (simp add: isOverBudget_def getElapsedMs_def pl1_def)
    from processOne_valid[OF less.prems(1) less.prems(2), of cfg h pl1]
    obtain gs' pl2 where one: "processOne cfg h gs pl1 = (gs', pl2, True)"
      and len: "length gs' = length gs" and va': "list_all valid_entry gs'"
      and gi: "guestIndex pl2 = (guestIndex pl1 + 1) mod length gs"
      and cnt: "guestsProcessed (statistics pl2) = guestsProcessed (statistics pl1) + 1"
      and st: "frameStartTime pl2 = frameStartTime pl1"
      by blast
    have step: "processLoop cfg h gs processed pl = processLoop cfg h gs' (processed + 2) pl2"
      using True ob one by (subst processLoop.simps) (simp add: add.commute)
    have ne': "gs' \<noteq> []" using len less.prems(1) by auto
    have st': "frameStartTime pl2 = t0" using st less.prems(3) by (simp add: pl1_def)
    have dec: "nat (?cap - (processed + 2)) < nat (?cap - processed)" using True by simp
    have lt': "guestIndex pl2 < length gs'" using gi len less.prems(1) by simp
    from less.hyps[OF dec ne' va' st' lt']
    obtain gs'' pl' where
      r: "processLoop cfg h gs' (processed + 2) pl2 =
            (gs'', processed + 2 + 2 * int (nat ((?cap - (processed + 2) + 1) div 2)), pl')"
      and c: "guestsProcessed (statistics pl')
               = guestsProcessed (statistics pl2) + nat ((?cap - (processed + 2) + 1) div 2)"
      and i: "guestIndex pl'
               = (guestIndex pl2 + nat ((?cap - (processed + 2) + 1) div 2)) mod length gs'"
      by blast
    have k: "nat ((?cap - processed + 1) div 2) = Suc (nat ((?cap - (processed + 2) + 1) div 2))"
      using True by (simp add: nat_eq_iff) 
    have i': "guestIndex pl' = (guestIndex pl + nat ((?cap - processed + 1) div 2)) mod length gs"
      unfolding i gi len k by (simp add: pl1_def mod_simps)
    have c': "guestsProcessed (statistics pl')
               = guestsProcessed (statistics pl) + nat ((?cap - processed + 1) div 2)"
      unfolding c cnt k by (simp add: pl1_def)
    have r': "processLoop cfg h gs processed pl =
            (gs'', processed + 2 * int (nat ((?cap - processed + 1) div 2)), pl')"
      unfolding step r k by simp
    from r' c' i' show ?thesis by blast
  qed
qed


lemma processGuests_count:
  assumes all: "allGuests h = Some gs" and ne: "gs \<noteq> []" and va: "list_all valid_entry gs"
    and budget: "\<forall>k. \<not> frameBudgetMs cfg \<le> of_int (now h k - now h (clock pl))"
    and lt: "guestIndex pl < length gs"
  shows "guestsProcessed (statistics (fst (snd (processGuests cfg h pl))))
           = guestsProcessed (statistics pl) + nat ((maxGuestsPerTick cfg + 1) div 2)
         \<and> guestIndex (fst (snd (processGuests cfg h pl)))
           = (guestIndex pl + nat ((maxGuestsPerTick cfg + 1) div 2)) mod length gs"
proof -
  define pl1 where "pl1 = startFrame h pl"
  have f: "frameStartTime pl1 = now h (clock pl)" "guestIndex pl1 = guestIndex pl"
    "statistics pl1 = statistics pl"
    by (simp_all add: pl1_def startFrame_def)
  from processLoop_count[OF budget ne va f(1), of 0] lt f(2)
  obtain gs' pl2 where
    l: "processLoop cfg h gs 0 pl1 =
          (gs', 0 + 2 * int (nat ((maxGuestsPerTick cfg - 0 + 1) div 2)), pl2)"
    and c: "guestsProcessed (statistics pl2)
              = guestsProcessed (statistics pl1) + nat ((maxGuestsPerTick cfg - 0 + 1) div 2)"
    and i: "guestIndex pl2 = (guestIndex pl1 + nat ((maxGuestsPerTick cfg - 0 + 1) div 2)) mod length gs"
    by auto
  show ?thesis
    using all ne l c i f
    by (simp add: processGuests_def pl1_def[symmetric] Let_def endFrame_def getElapsedMs_def
        split: prod.splits)
qed

text \<open>
  Claim C9. A scheduler pass processes agents one at a time from the round-robin cursor
  until the number of agents processed reaches \<open>maxGuestsPerTick\<close> or the frame budget
  is used up. The loop counts every processed agent twice in \<open>processed\<close>, so it stops
  early: with five live guests, a cap of 5 and a clock that never reaches the budget,
  the pass processes three agents and leaves the cursor at 3.
\<close>

theorem C9_pass_processes_three_agents_at_cap_five:
  "allGuests five_host = Some five_guests \<and> length five_guests = 5
   \<and> list_all valid_entry five_guests
   \<and> maxGuestsPerTick CONFIG = 5
   \<and> (\<forall>k. of_int (now five_host k - now five_host (clock demo_plugin)) < frameBudgetMs CONFIG)
   \<and> guestsProcessed (statistics demo_plugin) = 0 \<and> guestIndex demo_plugin = 0
   \<and> guestsProcessed (statistics (fst (snd (processGuests CONFIG five_host demo_plugin)))) = 3
   \<and> guestIndex (fst (snd (processGuests CONFIG five_host demo_plugin))) = 3"
proof -
  have a: "allGuests five_host = Some five_guests" by (simp add: five_host_def)
  have n: "length five_guests = 5" "five_guests \<noteq> []" by (simp_all add: five_guests_def)
  have v: "list_all valid_entry five_guests"
    by (simp add: five_guests_def valid_entry_def demo_guest_def)
  have m: "maxGuestsPerTick CONFIG = 5" by (simp add: CONFIG_def)
  have b: "\<forall>k. of_int (now five_host k - now five_host (clock demo_plugin)) < frameBudgetMs CONFIG"
    by (simp add: five_host_def demo_host_def CONFIG_def)
  then have b': "\<forall>k. \<not> frameBudgetMs CONFIG \<le> of_int (now five_host k - now five_host (clock demo_plugin))"
    by (simp add: not_le)
  have p: "guestsProcessed (statistics demo_plugin) = 0" "guestIndex demo_plugin = 0"
    by (simp_all add: demo_plugin_def)
  have lt: "guestIndex demo_plugin < length five_guests" by (simp add: p n)
  from processGuests_count[OF a n(2) v b' lt] p n m
  have "guestsProcessed (statistics (fst (snd (processGuests CONFIG five_host demo_plugin)))) = 3
   \<and> guestIndex (fst (snd (processGuests CONFIG five_host demo_plugin))) = 3"
    by simp
  with a n v m b p show ?thesis by blast
qed

end
